theory Spec2Isabelle
  imports Main
begin

section \<open>TurboSolid: the resource binding of \<open>src/resource.ts\<close>\<close>

text \<open>
  The theory embeds \<open>createTurboResource\<close> of \<open>src/resource.ts\<close>. The closure's
  variables become a record of the state, every function of the closure becomes a
  function on that record, and every call into the cache or into the host runtime is
  appended to a list of calls, so that "which operation was invoked, and in which order"
  can be read from the state. What the cache and the host answer (the promise a query
  returns, whether an operation throws, the time a clock read returns) is an argument of
  the function that makes the call. Times are integer milliseconds, as \<open>Date.getTime\<close>
  returns them.

  The cache's \<open>query\<close>, \<open>mutate\<close>, \<open>forget\<close> and \<open>abort\<close> may throw, and a promise may be
  rejected. The functions of the host runtime (\<open>actions.refetch\<close>, \<open>actions.mutate\<close>, a
  transition function, \<open>addEventListener\<close>) and the cache's \<open>subscribe\<close> are taken to return
  normally.
\<close>

subsection \<open>Keys\<close>

text \<open>\<open>TurboSolidKeyType = string | false | null | undefined\<close>.\<close>

datatype key_type = KString string | KFalse | KNull | KUndefined

text \<open>The test \<open>!key\<close> of the source: a key is truthy when it is a non-empty string.\<close>

fun truthy :: "key_type \<Rightarrow> bool" where
  "truthy (KString k) = (k \<noteq> [])"
| "truthy KFalse = False"
| "truthy KNull = False"
| "truthy KUndefined = False"

fun is_string :: "key_type \<Rightarrow> bool" where
  "is_string (KString k) = True"
| "is_string KFalse = False"
| "is_string KNull = False"
| "is_string KUndefined = False"

text \<open>What one evaluation of the accessor \<open>key()\<close> does: it throws or it returns a key.\<close>

datatype 'e key_outcome = Threw 'e | Returned key_type

text \<open>
  \<open>keyMemo\<close> (lines 186-192): \<open>try { return key() } catch { return null }\<close>.
\<close>

fun keyMemo :: "'e key_outcome \<Rightarrow> key_type" where
  "keyMemo (Threw e) = KNull"
| "keyMemo (Returned k) = k"

subsection \<open>Options and the values resolved from them\<close>

text \<open>\<open>transition?: boolean | ((fn: () => void) => Promise<void>)\<close>; \<open>'f\<close> is the type of
  transition functions.\<close>

datatype 'f transition_option = TUndefined | TBoolean bool | TFunction 'f

text \<open>
  \<open>getTransition\<close> (lines 171-181). The first argument is the host's \<open>startTransition\<close>.
\<close>

fun getTransition :: "'f \<Rightarrow> 'f transition_option \<Rightarrow> 'f option" where
  "getTransition startTransition TUndefined = Some startTransition"
| "getTransition startTransition (TBoolean t) = (if t then Some startTransition else None)"
| "getTransition startTransition (TFunction t) = Some t"

text \<open>
  A property of an options object that a spread copies: absent, or present with a value.
  \<open>stale\<close> is a property of \<open>TurboQueryOptions\<close>, the interface of the cache's package that
  \<open>TurboSolidResourceOptions\<close> extends (line 30); it is the one property of that
  interface that the source itself writes (lines 214 and 235). Its value is a boolean or
  \<open>undefined\<close> (\<open>None\<close>). The other properties of \<open>TurboQueryOptions\<close> pass through the
  same spreads to the cache and play no part in this layer.
\<close>

datatype 'a property = Absent | Present 'a

text \<open>
  \<open>TurboSolidResourceOptions\<close> (lines 30-61). For the fields read through \<open>??\<close> the value
  \<open>None\<close> stands for a property that is absent or \<open>undefined\<close>: \<open>??\<close> treats both alike.
\<close>

record 'f options =
  opt_transition :: "'f transition_option"
  opt_refetchOnFocus :: "bool option"
  opt_refetchOnConnect :: "bool option"
  opt_focusInterval :: "int option"
  opt_stale :: "bool option property"

text \<open>
  What the closure is created with: the per-call \<open>options\<close> and the \<open>contextOptions\<close>
  (each may be \<open>undefined\<close>), the host's \<open>startTransition\<close>, and whether
  \<open>typeof window !== 'undefined'\<close>.
\<close>

record 'f env =
  options :: "'f options option"
  contextOptions :: "'f options option"
  startTransition :: 'f
  hasWindow :: bool

text \<open>\<open>a ?? b\<close> on transition options and on optional values.\<close>

fun nullish_transition :: "'f transition_option \<Rightarrow> 'f transition_option \<Rightarrow> 'f transition_option" where
  "nullish_transition TUndefined b = b"
| "nullish_transition (TBoolean t) b = TBoolean t"
| "nullish_transition (TFunction t) b = TFunction t"

fun nullish :: "'a option \<Rightarrow> 'a option \<Rightarrow> 'a option" where
  "nullish None b = b"
| "nullish (Some a) b = Some a"

text \<open>\<open>o?.transition\<close> and the other optional-chained reads.\<close>

fun transition_of :: "'f options option \<Rightarrow> 'f transition_option" where
  "transition_of None = TUndefined"
| "transition_of (Some o') = opt_transition o'"

fun field_of :: "('f options \<Rightarrow> 'a option) \<Rightarrow> 'f options option \<Rightarrow> 'a option" where
  "field_of f None = None"
| "field_of f (Some o') = f o'"

fun or_default :: "'a option \<Rightarrow> 'a \<Rightarrow> 'a" where
  "or_default None d = d"
| "or_default (Some a) d = a"

text \<open>Lines 201-204.\<close>

definition transition :: "'f env \<Rightarrow> 'f option" where
  "transition env =
     getTransition (startTransition env)
       (nullish_transition (transition_of (options env)) (transition_of (contextOptions env)))"

definition refetchOnFocus :: "'f env \<Rightarrow> bool" where
  "refetchOnFocus env =
     or_default (nullish (field_of opt_refetchOnFocus (options env))
                         (field_of opt_refetchOnFocus (contextOptions env))) True"

definition refetchOnConnect :: "'f env \<Rightarrow> bool" where
  "refetchOnConnect env =
     or_default (nullish (field_of opt_refetchOnConnect (options env))
                         (field_of opt_refetchOnConnect (contextOptions env))) True"

definition focusInterval :: "'f env \<Rightarrow> int" where
  "focusInterval env =
     or_default (nullish (field_of opt_focusInterval (options env))
                         (field_of opt_focusInterval (contextOptions env))) 5000"

text \<open>
  The value of \<open>stale\<close> in \<open>{ stale: d, ...contextOptions, ...options }\<close>: a later spread
  overwrites an earlier property, and spreading \<open>undefined\<close> copies nothing.
\<close>

fun stale_of :: "'f options option \<Rightarrow> bool option property" where
  "stale_of None = Absent"
| "stale_of (Some o') = opt_stale o'"

fun overwrite :: "'a \<Rightarrow> 'a property \<Rightarrow> 'a" where
  "overwrite a Absent = a"
| "overwrite a (Present b) = b"

definition spread_stale :: "bool \<Rightarrow> 'f env \<Rightarrow> bool option" where
  "spread_stale d env =
     overwrite (overwrite (Some d) (stale_of (contextOptions env))) (stale_of (options env))"

subsection \<open>Promises, cache events, handles and calls\<close>

text \<open>
  A promise has an identity and the way it settles; \<open>Pending\<close> is a promise that never
  settles.
\<close>

datatype ('v, 'e) settlement = Fulfilled 'v | Rejected 'e | Pending

datatype ('v, 'e) promise = Promise nat "('v, 'e) settlement"

fun settles :: "('v, 'e) promise \<Rightarrow> ('v, 'e) settlement" where
  "settles (Promise i r) = r"

text \<open>
  \<open>return await promise\<close> in an \<open>async\<close> function whose result type is
  \<open>T | undefined\<close> (\<open>None\<close> is \<open>undefined\<close>): the returned promise settles as the awaited
  one does.
\<close>

fun await :: "('v, 'e) promise \<Rightarrow> ('v option, 'e) settlement" where
  "await (Promise i (Fulfilled v)) = Fulfilled (Some v)"
| "await (Promise i (Rejected e)) = Rejected e"
| "await (Promise i Pending) = Pending"

text \<open>The event names \<open>'mutated'\<close>, \<open>'refetching'\<close>, \<open>'resolved'\<close>, \<open>'error'\<close> of the cache, and
  the window events \<open>'focus'\<close> and \<open>'online'\<close>.\<close>

datatype event_name = OnMutated | OnRefetching | OnResolved | OnError

datatype window_event = Focus | Online

datatype ('v, 'e) cache_event =
    MutatedEvent 'v
  | RefetchingEvent "('v, 'e) promise"
  | ResolvedEvent
  | ErrorEvent

fun name_of :: "('v, 'e) cache_event \<Rightarrow> event_name" where
  "name_of (MutatedEvent item) = OnMutated"
| "name_of (RefetchingEvent p) = OnRefetching"
| "name_of ResolvedEvent = OnResolved"
| "name_of ErrorEvent = OnError"

text \<open>
  An unsubscribe handle: the function \<open>subscribe\<close> returned for a key and an event name,
  the function that removes a window listener, or the empty function \<open>() => {}\<close> of
  lines 281 and 292. The number tells two registrations apart.
\<close>

datatype handle =
    CacheListener nat string event_name
  | WindowListener nat window_event
  | EmptyFunction

fun listens :: "string \<Rightarrow> event_name \<Rightarrow> handle \<Rightarrow> bool" where
  "listens k n (CacheListener i k' n') = (k = k' \<and> n = n')"
| "listens k n (WindowListener i w) = False"
| "listens k n EmptyFunction = False"

fun listens_window :: "window_event \<Rightarrow> handle \<Rightarrow> bool" where
  "listens_window w (CacheListener i k n) = False"
| "listens_window w (WindowListener i w') = (w = w')"
| "listens_window w EmptyFunction = False"

text \<open>The two actions of the host's resource cell that the source calls.\<close>

datatype ('v, 'e) action = ActionsRefetch "('v, 'e) promise" | ActionsMutate 'v

text \<open>
  The calls this layer makes: the operations of the cache, \<open>window.addEventListener\<close>, the
  invocation of an unsubscribe handle, and a commit to the resource cell, made directly
  (\<open>actions.refetch(promise)\<close>) or handed to a transition function
  (\<open>transition(() => actions.refetch(promise))\<close>). \<open>Query k st\<close> is
  \<open>query(k, { stale: st, ... })\<close>.
\<close>

datatype ('v, 'e, 'f) call =
    Query string "bool option"
  | Mutate string 'v
  | Forget string
  | Abort string "'e option"
  | Subscribe string event_name
  | AddEventListener window_event
  | Invoke handle
  | Direct "('v, 'e) action"
  | ViaTransition 'f "('v, 'e) action"

text \<open>The operations of the cache contract among the calls, the commits to the resource
  cell, and the queries.\<close>

fun cache_operation :: "('v, 'e, 'f) call \<Rightarrow> bool" where
  "cache_operation (Query k st) = True"
| "cache_operation (Mutate k v) = True"
| "cache_operation (Forget k) = True"
| "cache_operation (Abort k r) = True"
| "cache_operation (Subscribe k n) = True"
| "cache_operation (AddEventListener w) = False"
| "cache_operation (Invoke h) = False"
| "cache_operation (Direct a) = False"
| "cache_operation (ViaTransition t a) = False"

fun is_commit :: "('v, 'e, 'f) call \<Rightarrow> bool" where
  "is_commit (Query k st) = False"
| "is_commit (Mutate k v) = False"
| "is_commit (Forget k) = False"
| "is_commit (Abort k r) = False"
| "is_commit (Subscribe k n) = False"
| "is_commit (AddEventListener w) = False"
| "is_commit (Invoke h) = False"
| "is_commit (Direct a) = True"
| "is_commit (ViaTransition t a) = True"

fun is_query :: "('v, 'e, 'f) call \<Rightarrow> bool" where
  "is_query (Query k st) = True"
| "is_query (Mutate k v) = False"
| "is_query (Forget k) = False"
| "is_query (Abort k r) = False"
| "is_query (Subscribe k n) = False"
| "is_query (AddEventListener w) = False"
| "is_query (Invoke h) = False"
| "is_query (Direct a) = False"
| "is_query (ViaTransition t a) = False"

subsection \<open>The state of one resource\<close>

text \<open>
  \<open>currentKey\<close> is the value of \<open>keyMemo()\<close>, \<open>loading\<close> the host's \<open>item.loading\<close>. The six
  \<open>unsubscribe...\<close> fields are the variables of lines 241-246 (\<open>None\<close> is \<open>undefined\<close>).
  \<open>cleanupRegistered\<close> tells whether the last run of the effect reached its \<open>onCleanup\<close>
  (line 439). \<open>listeners\<close> are the handlers that the cache and the window hold for this
  resource at the moment, \<open>nextListener\<close> numbers the next registration, and \<open>calls\<close> is
  the list of calls made so far, oldest first.
\<close>

record ('v, 'e, 'f) resource =
  currentKey :: key_type
  isRefetching :: bool
  lastFocus :: int
  loading :: bool
  unsubscribeMutations :: "handle option"
  unsubscribeRefetching :: "handle option"
  unsubscribeFocusRefetch :: "handle option"
  unsubscribeConnectRefetch :: "handle option"
  unsubscribeResolved :: "handle option"
  unsubscribeErrors :: "handle option"
  cleanupRegistered :: bool
  listeners :: "handle list"
  nextListener :: nat
  calls :: "('v, 'e, 'f) call list"

definition record_call ::
  "('v, 'e, 'f) call \<Rightarrow> ('v, 'e, 'f) resource \<Rightarrow> ('v, 'e, 'f) resource" where
  "record_call c s = s\<lparr>calls := calls s @ [c]\<rparr>"

fun key_string :: "key_type \<Rightarrow> string" where
  "key_string (KString k) = k"
| "key_string KFalse = []"
| "key_string KNull = []"
| "key_string KUndefined = []"

text \<open>\<open>if (transition) transition(() => a) else a\<close>, as lines 236-237, 393-394, 403-404.\<close>

definition commit ::
  "'f env \<Rightarrow> ('v, 'e) action \<Rightarrow> ('v, 'e, 'f) resource \<Rightarrow> ('v, 'e, 'f) resource" where
  "commit env a s =
     (case transition env of
        Some t \<Rightarrow> record_call (ViaTransition t a) s
      | None \<Rightarrow> record_call (Direct a) s)"

subsection \<open>The handlers of the cache events (lines 392-420)\<close>

definition on_mutated ::
  "'f env \<Rightarrow> 'v \<Rightarrow> ('v, 'e, 'f) resource \<Rightarrow> ('v, 'e, 'f) resource" where
  "on_mutated env item s = commit env (ActionsMutate item) s"

definition on_refetching ::
  "'f env \<Rightarrow> ('v, 'e) promise \<Rightarrow> ('v, 'e, 'f) resource \<Rightarrow> ('v, 'e, 'f) resource" where
  "on_refetching env p s =
     (let s1 = s\<lparr>isRefetching := True\<rparr>
      in if \<not> loading s1 then commit env (ActionsRefetch p) s1 else s1)"

definition on_resolved :: "('v, 'e, 'f) resource \<Rightarrow> ('v, 'e, 'f) resource" where
  "on_resolved s = s\<lparr>isRefetching := False\<rparr>"

definition on_error :: "('v, 'e, 'f) resource \<Rightarrow> ('v, 'e, 'f) resource" where
  "on_error s = s\<lparr>isRefetching := False\<rparr>"

fun handler ::
  "'f env \<Rightarrow> ('v, 'e) cache_event \<Rightarrow> ('v, 'e, 'f) resource \<Rightarrow> ('v, 'e, 'f) resource" where
  "handler env (MutatedEvent item) s = on_mutated env item s"
| "handler env (RefetchingEvent p) s = on_refetching env p s"
| "handler env ResolvedEvent s = on_resolved s"
| "handler env ErrorEvent s = on_error s"

text \<open>
  The cache dispatches an event of key \<open>k\<close>: every handler that this resource has
  registered for \<open>k\<close> and the event's name runs, in the order of registration.
\<close>

fun deliver ::
  "'f env \<Rightarrow> string \<Rightarrow> ('v, 'e) cache_event \<Rightarrow> handle list \<Rightarrow>
   ('v, 'e, 'f) resource \<Rightarrow> ('v, 'e, 'f) resource" where
  "deliver env k ev [] s = s"
| "deliver env k ev (h # hs) s =
     deliver env k ev hs (if listens k (name_of ev) h then handler env ev s else s)"

definition dispatch ::
  "'f env \<Rightarrow> string \<times> ('v, 'e) cache_event \<Rightarrow> ('v, 'e, 'f) resource \<Rightarrow> ('v, 'e, 'f) resource" where
  "dispatch env kev s = deliver env (fst kev) (snd kev) (listeners s) s"

text \<open>
  A call of a cache operation: the call is made, and the events that the cache dispatches
  before the call returns (its \<open>reaction\<close>, the cache's own business) reach the handlers.
\<close>

fun react ::
  "'f env \<Rightarrow> (string \<times> ('v, 'e) cache_event) list \<Rightarrow> ('v, 'e, 'f) resource \<Rightarrow>
   ('v, 'e, 'f) resource" where
  "react env [] s = s"
| "react env (kev # kevs) s = react env kevs (dispatch env kev s)"

definition cache_call ::
  "'f env \<Rightarrow> ('v, 'e, 'f) call \<Rightarrow> (string \<times> ('v, 'e) cache_event) list \<Rightarrow>
   ('v, 'e, 'f) resource \<Rightarrow> ('v, 'e, 'f) resource" where
  "cache_call env c reaction s = react env reaction (record_call c s)"

text \<open>
  What the cache answers to \<open>query\<close>: it throws or returns a promise, and it may dispatch
  events meanwhile (a cache that starts a fetch for \<open>k\<close> dispatches \<open>refetching\<close> for \<open>k\<close>).
  To the other operations it answers by returning or throwing.
\<close>

record ('v, 'e) query_answer =
  returned :: "'e + ('v, 'e) promise"
  query_reaction :: "(string \<times> ('v, 'e) cache_event) list"

record ('v, 'e) answer =
  thrown :: "'e option"
  reaction :: "(string \<times> ('v, 'e) cache_event) list"

text \<open>\<open>query(k, { stale: d, ...contextOptions, ...options })\<close>.\<close>

definition query ::
  "'f env \<Rightarrow> string \<Rightarrow> bool \<Rightarrow> ('v, 'e) query_answer \<Rightarrow> ('v, 'e, 'f) resource \<Rightarrow>
   ('e + ('v, 'e) promise) \<times> ('v, 'e, 'f) resource" where
  "query env k d qa s =
     (returned qa, cache_call env (Query k (spread_stale d env)) (query_reaction qa) s)"

subsection \<open>The loader and the actions\<close>

text \<open>
  The \<open>refetching\<close> field of the loader's second argument: the host passes \<open>false\<close> on a
  load caused by the key, and otherwise what \<open>actions.refetch\<close> was called with.
\<close>

datatype ('v, 'e) refetching_info =
    RefetchingBoolean bool
  | RefetchingPromise "('v, 'e) promise"
  | RefetchingOther

text \<open>The loader given to \<open>createResource\<close> (lines 211-215).\<close>

fun loader ::
  "'f env \<Rightarrow> string \<Rightarrow> ('v, 'e) refetching_info \<Rightarrow> ('v, 'e) query_answer \<Rightarrow>
   ('v, 'e, 'f) resource \<Rightarrow> ('e + ('v, 'e) promise) \<times> ('v, 'e, 'f) resource" where
  "loader env k (RefetchingPromise p) qa s = (Inr p, s)"
| "loader env k (RefetchingBoolean b) qa s = query env k True qa s"
| "loader env k RefetchingOther qa s = query env k True qa s"

text \<open>
  How a synchronous function of this layer completes. A state change made before a
  throw stays, so the state is returned beside the completion.
\<close>

datatype 'e completion = Normal | Throws 'e

fun completion_of :: "'e option \<Rightarrow> 'e completion" where
  "completion_of None = Normal"
| "completion_of (Some e) = Throws e"

text \<open>\<open>localMutate\<close> (lines 221-225).\<close>

definition localMutate ::
  "'f env \<Rightarrow> 'v \<Rightarrow> ('v, 'e) answer \<Rightarrow> ('v, 'e, 'f) resource \<Rightarrow>
   'e completion \<times> ('v, 'e, 'f) resource" where
  "localMutate env v a s =
     (let key = currentKey s
      in if \<not> truthy key then (Normal, s)
         else (completion_of (thrown a),
               cache_call env (Mutate (key_string key) v) (reaction a) s))"

text \<open>
  \<open>localRefetch\<close> (lines 232-239), an \<open>async\<close> function: the result is the way the
  returned promise settles. A throw of \<open>query\<close> rejects the returned promise.
\<close>

definition localRefetch ::
  "'f env \<Rightarrow> ('v, 'e) query_answer \<Rightarrow> ('v, 'e, 'f) resource \<Rightarrow>
   ('v option, 'e) settlement \<times> ('v, 'e, 'f) resource" where
  "localRefetch env qa s =
     (let key = currentKey s
      in if \<not> truthy key then (Fulfilled None, s)
         else (case query env (key_string key) False qa s of
                 (Inl e, s1) \<Rightarrow> (Rejected e, s1)
               | (Inr promise, s1) \<Rightarrow> (await promise, commit env (ActionsRefetch promise) s1)))"

text \<open>\<open>localForget\<close> and \<open>localAbort\<close> (lines 448-461).\<close>

definition localForget ::
  "'f env \<Rightarrow> ('v, 'e) answer \<Rightarrow> ('v, 'e, 'f) resource \<Rightarrow>
   'e completion \<times> ('v, 'e, 'f) resource" where
  "localForget env a s =
     (let key = currentKey s
      in if \<not> truthy key then (Normal, s)
         else (completion_of (thrown a),
               cache_call env (Forget (key_string key)) (reaction a) s))"

definition localAbort ::
  "'f env \<Rightarrow> 'e option \<Rightarrow> ('v, 'e) answer \<Rightarrow> ('v, 'e, 'f) resource \<Rightarrow>
   'e completion \<times> ('v, 'e, 'f) resource" where
  "localAbort env reason a s =
     (let key = currentKey s
      in if \<not> truthy key then (Normal, s)
         else (completion_of (thrown a),
               cache_call env (Abort (key_string key) reason) (reaction a) s))"

subsection \<open>Subscriptions\<close>

text \<open>
  \<open>h?.()\<close> on one of the six variables: an undefined variable is skipped, and a handle is
  invoked, which removes its handler from the cache or the window.
\<close>

fun invoke :: "handle option \<Rightarrow> ('v, 'e, 'f) resource \<Rightarrow> ('v, 'e, 'f) resource" where
  "invoke None s = s"
| "invoke (Some h) s = (record_call (Invoke h) s)\<lparr>listeners := removeAll h (listeners s)\<rparr>"

text \<open>\<open>localUnsubscribe\<close> (lines 253-260), in the order of the source.\<close>

definition localUnsubscribe :: "('v, 'e, 'f) resource \<Rightarrow> ('v, 'e, 'f) resource" where
  "localUnsubscribe s =
     (let s1 = invoke (unsubscribeMutations s) s;
          s2 = invoke (unsubscribeRefetching s1) s1;
          s3 = invoke (unsubscribeFocusRefetch s2) s2;
          s4 = invoke (unsubscribeConnectRefetch s3) s3;
          s5 = invoke (unsubscribeResolved s4) s4
      in invoke (unsubscribeErrors s5) s5)"

text \<open>
  The cache's \<open>subscribe(key, name, handler)\<close>: it registers the handler and returns the
  handle. Like the other operations of the cache it may dispatch events before it
  returns (the \<open>events\<close>), and the handler just registered receives them too: a cache
  that has a fetch of the key in flight dispatches \<open>refetching\<close> with that fetch's promise
  to a new \<open>refetching\<close> handler.
\<close>

definition subscribe ::
  "'f env \<Rightarrow> string \<Rightarrow> event_name \<Rightarrow> (string \<times> ('v, 'e) cache_event) list \<Rightarrow>
   ('v, 'e, 'f) resource \<Rightarrow> handle \<times> ('v, 'e, 'f) resource" where
  "subscribe env k n events s =
     (CacheListener (nextListener s) k n,
      react env events
        ((record_call (Subscribe k n) s)
           \<lparr>listeners := listeners s @ [CacheListener (nextListener s) k n],
            nextListener := Suc (nextListener s)\<rparr>))"

text \<open>The registration of \<open>onFocus\<close> and \<open>onConnect\<close> (lines 267-293).\<close>

definition addEventListener ::
  "window_event \<Rightarrow> ('v, 'e, 'f) resource \<Rightarrow> handle \<times> ('v, 'e, 'f) resource" where
  "addEventListener w s =
     (WindowListener (nextListener s) w,
      (record_call (AddEventListener w) s)
        \<lparr>listeners := listeners s @ [WindowListener (nextListener s) w],
         nextListener := Suc (nextListener s)\<rparr>)"

definition onFocus ::
  "'f env \<Rightarrow> ('v, 'e, 'f) resource \<Rightarrow> handle \<times> ('v, 'e, 'f) resource" where
  "onFocus env s =
     (if refetchOnFocus env \<and> hasWindow env then addEventListener Focus s
      else (EmptyFunction, s))"

definition onConnect ::
  "'f env \<Rightarrow> ('v, 'e, 'f) resource \<Rightarrow> handle \<times> ('v, 'e, 'f) resource" where
  "onConnect env s =
     (if refetchOnConnect env \<and> hasWindow env then addEventListener Online s
      else (EmptyFunction, s))"

text \<open>
  \<open>rawHandler\<close> (lines 269-277). \<open>now\<close> is what \<open>new Date()\<close> of line 271 returns and
  \<open>stamp\<close> what the second \<open>new Date()\<close>, of line 274, returns.
\<close>

definition rawHandler ::
  "'f env \<Rightarrow> (('v, 'e, 'f) resource \<Rightarrow> ('v, 'e, 'f) resource) \<Rightarrow> int \<Rightarrow> int \<Rightarrow>
   ('v, 'e, 'f) resource \<Rightarrow> ('v, 'e, 'f) resource" where
  "rawHandler env listener now stamp s =
     (let last = lastFocus s
      in if now - last > focusInterval env then listener (s\<lparr>lastFocus := stamp\<rparr>) else s)"

text \<open>The listener given to \<open>onFocus\<close> and \<open>onConnect\<close> (lines 425-434): \<open>localRefetch()\<close>,
  its promise dropped.\<close>

definition refetch_listener ::
  "'f env \<Rightarrow> ('v, 'e) query_answer \<Rightarrow> ('v, 'e, 'f) resource \<Rightarrow> ('v, 'e, 'f) resource" where
  "refetch_listener env qa s = snd (localRefetch env qa s)"

text \<open>The window fires \<open>focus\<close> or \<open>online\<close>: every registered handler of the event runs.\<close>

fun fire_focus ::
  "'f env \<Rightarrow> int \<Rightarrow> int \<Rightarrow> ('v, 'e) query_answer \<Rightarrow> handle list \<Rightarrow>
   ('v, 'e, 'f) resource \<Rightarrow> ('v, 'e, 'f) resource" where
  "fire_focus env now stamp qa [] s = s"
| "fire_focus env now stamp qa (h # hs) s =
     fire_focus env now stamp qa hs
       (if listens_window Focus h then rawHandler env (refetch_listener env qa) now stamp s
        else s)"

fun fire_online ::
  "'f env \<Rightarrow> ('v, 'e) query_answer \<Rightarrow> handle list \<Rightarrow>
   ('v, 'e, 'f) resource \<Rightarrow> ('v, 'e, 'f) resource" where
  "fire_online env qa [] s = s"
| "fire_online env qa (h # hs) s =
     fire_online env qa hs (if listens_window Online h then refetch_listener env qa s else s)"

definition window_focus ::
  "'f env \<Rightarrow> int \<Rightarrow> int \<Rightarrow> ('v, 'e) query_answer \<Rightarrow> ('v, 'e, 'f) resource \<Rightarrow>
   ('v, 'e, 'f) resource" where
  "window_focus env now stamp qa s = fire_focus env now stamp qa (listeners s) s"

definition window_online ::
  "'f env \<Rightarrow> ('v, 'e) query_answer \<Rightarrow> ('v, 'e, 'f) resource \<Rightarrow> ('v, 'e, 'f) resource" where
  "window_online env qa s = fire_online env qa (listeners s) s"

subsection \<open>The effect on the key (lines 383-443)\<close>

text \<open>
  Before the host runs the effect again, and when it disposes of the effect, it runs the
  cleanup that the previous run registered: \<open>localUnsubscribe\<close> (lines 439-441).
\<close>

definition run_cleanup :: "('v, 'e, 'f) resource \<Rightarrow> ('v, 'e, 'f) resource" where
  "run_cleanup s =
     (if cleanupRegistered s then (localUnsubscribe s)\<lparr>cleanupRegistered := False\<rparr> else s)"

text \<open>
  The six assignments of lines 392-434, in the order of the source. \<open>sub n\<close> is the
  cache's reaction to the subscription for the event \<open>n\<close>.
\<close>

definition subscribe_all ::
  "'f env \<Rightarrow> string \<Rightarrow> (event_name \<Rightarrow> (string \<times> ('v, 'e) cache_event) list) \<Rightarrow>
   ('v, 'e, 'f) resource \<Rightarrow> ('v, 'e, 'f) resource" where
  "subscribe_all env k sub s =
     (case subscribe env k OnMutated (sub OnMutated) s of (h1, s1) \<Rightarrow>
      case subscribe env k OnRefetching (sub OnRefetching)
             (s1\<lparr>unsubscribeMutations := Some h1\<rparr>) of (h2, s2) \<Rightarrow>
      case subscribe env k OnResolved (sub OnResolved)
             (s2\<lparr>unsubscribeRefetching := Some h2\<rparr>) of (h3, s3) \<Rightarrow>
      case subscribe env k OnError (sub OnError)
             (s3\<lparr>unsubscribeResolved := Some h3\<rparr>) of (h4, s4) \<Rightarrow>
      case onFocus env (s4\<lparr>unsubscribeErrors := Some h4\<rparr>) of (h5, s5) \<Rightarrow>
      case onConnect env (s5\<lparr>unsubscribeFocusRefetch := Some h5\<rparr>) of (h6, s6) \<Rightarrow>
        s6\<lparr>unsubscribeConnectRefetch := Some h6\<rparr>)"

definition effect_body ::
  "'f env \<Rightarrow> (event_name \<Rightarrow> (string \<times> ('v, 'e) cache_event) list) \<Rightarrow>
   ('v, 'e, 'f) resource \<Rightarrow> ('v, 'e, 'f) resource" where
  "effect_body env sub s =
     (let s0 = s\<lparr>isRefetching := False\<rparr>;
          key = currentKey s0
      in if \<not> truthy key then s0
         else (subscribe_all env (key_string key) sub s0)\<lparr>cleanupRegistered := True\<rparr>)"

definition effect ::
  "'f env \<Rightarrow> (event_name \<Rightarrow> (string \<times> ('v, 'e) cache_event) list) \<Rightarrow>
   ('v, 'e, 'f) resource \<Rightarrow> ('v, 'e, 'f) resource" where
  "effect env sub s = effect_body env sub (run_cleanup s)"

text \<open>
  The host's \<open>createResource\<close> calls the loader for a key that is not \<open>false\<close>, \<open>null\<close> or
  \<open>undefined\<close>; a load caused by the key has \<open>refetching = false\<close>. When the loader has
  returned its promise the cell is loading; a loader that throws leaves the cell as it
  was. Every other change of \<open>item.loading\<close> (a load that settles, a commit that the host
  turns into a load) is the host's and comes as the input \<open>CellLoading\<close> below.
\<close>

definition resource_load ::
  "'f env \<Rightarrow> ('v, 'e) query_answer \<Rightarrow> ('v, 'e, 'f) resource \<Rightarrow> ('v, 'e, 'f) resource" where
  "resource_load env qa s =
     (if is_string (currentKey s)
      then (case loader env (key_string (currentKey s)) (RefetchingBoolean False) qa s of
              (Inl e, s1) \<Rightarrow> s1
            | (Inr promise, s1) \<Rightarrow> s1\<lparr>loading := True\<rparr>)
      else s)"

text \<open>
  One evaluation of the key accessor. The memo keeps its value when the new one is the
  same; when the value changes, the resource loads and then the effect runs.
\<close>

definition key_evaluated ::
  "'f env \<Rightarrow> 'e key_outcome \<Rightarrow> ('v, 'e) query_answer \<Rightarrow>
   (event_name \<Rightarrow> (string \<times> ('v, 'e) cache_event) list) \<Rightarrow> ('v, 'e, 'f) resource \<Rightarrow>
   ('v, 'e, 'f) resource" where
  "key_evaluated env r qa sub s =
     (let k = keyMemo r
      in if k = currentKey s then s
         else effect env sub (resource_load env qa (s\<lparr>currentKey := k\<rparr>)))"

text \<open>
  \<open>createTurboResource\<close> at time \<open>now\<close> (line 262 reads the clock), with the first
  evaluation of the key, the first load and the first run of the effect.
\<close>

definition blank :: "int \<Rightarrow> key_type \<Rightarrow> ('v, 'e, 'f) resource" where
  "blank now k =
     \<lparr>currentKey = k, isRefetching = False, lastFocus = now, loading = False,
      unsubscribeMutations = None, unsubscribeRefetching = None,
      unsubscribeFocusRefetch = None, unsubscribeConnectRefetch = None,
      unsubscribeResolved = None, unsubscribeErrors = None,
      cleanupRegistered = False, listeners = [], nextListener = 0, calls = []\<rparr>"

definition createTurboResource ::
  "'f env \<Rightarrow> int \<Rightarrow> 'e key_outcome \<Rightarrow> ('v, 'e) query_answer \<Rightarrow>
   (event_name \<Rightarrow> (string \<times> ('v, 'e) cache_event) list) \<Rightarrow> ('v, 'e, 'f) resource" where
  "createTurboResource env now r qa sub =
     effect env sub (resource_load env qa (blank now (keyMemo r)))"

subsection \<open>What can happen to a resource\<close>

datatype ('v, 'e) input =
    KeyEvaluated "'e key_outcome" "('v, 'e) query_answer"
      "event_name \<Rightarrow> (string \<times> ('v, 'e) cache_event) list"
  | CacheDispatch string "('v, 'e) cache_event"
  | WindowFocus int int "('v, 'e) query_answer"
  | WindowOnline "('v, 'e) query_answer"
  | CallMutate 'v "('v, 'e) answer"
  | CallRefetch "('v, 'e) query_answer"
  | CallForget "('v, 'e) answer"
  | CallAbort "'e option" "('v, 'e) answer"
  | CallUnsubscribe
  | CellLoading bool
  | Dispose

fun step ::
  "'f env \<Rightarrow> ('v, 'e) input \<Rightarrow> ('v, 'e, 'f) resource \<Rightarrow> ('v, 'e, 'f) resource" where
  "step env (KeyEvaluated r qa sub) s = key_evaluated env r qa sub s"
| "step env (CacheDispatch k ev) s = dispatch env (k, ev) s"
| "step env (WindowFocus now stamp qa) s = window_focus env now stamp qa s"
| "step env (WindowOnline qa) s = window_online env qa s"
| "step env (CallMutate v a) s = snd (localMutate env v a s)"
| "step env (CallRefetch qa) s = snd (localRefetch env qa s)"
| "step env (CallForget a) s = snd (localForget env a s)"
| "step env (CallAbort reason a) s = snd (localAbort env reason a s)"
| "step env CallUnsubscribe s = localUnsubscribe s"
| "step env (CellLoading b) s = s\<lparr>loading := b\<rparr>"
| "step env Dispose s = run_cleanup s"

fun run ::
  "'f env \<Rightarrow> ('v, 'e) input list \<Rightarrow> ('v, 'e, 'f) resource \<Rightarrow> ('v, 'e, 'f) resource" where
  "run env [] s = s"
| "run env (i # is) s = run env is (step env i s)"

subsection \<open>\<open>createStale\<close> (lines 340-381)\<close>

text \<open>
  The two signals of \<open>createStale\<close>. \<open>expiration\<close> is the cache's function at the moment
  of the call (\<open>None\<close> is \<open>undefined\<close>), \<open>now\<close> what \<open>new Date()\<close> returns.
\<close>

record stale_signals =
  isStale :: bool
  staleIn :: int

definition initial_stale :: "key_type \<Rightarrow> (string \<Rightarrow> int option) \<Rightarrow> int \<Rightarrow> stale_signals" where
  "initial_stale initialKey expiration now =
     (let initial = \<lparr>isStale = True, staleIn = 0\<rparr>
      in if truthy initialKey then
           (case expiration (key_string initialKey) of
              None \<Rightarrow> initial
            | Some expiresAt \<Rightarrow>
                (let expirationIn = expiresAt - now;
                     i1 = (if expirationIn \<ge> 0 then initial\<lparr>staleIn := expirationIn\<rparr>
                           else initial)
                 in i1\<lparr>isStale := expiresAt < now\<rparr>))
         else initial)"

text \<open>One tick of the interval of lines 362-372, for the key the effect captured.\<close>

definition stale_tick ::
  "key_type \<Rightarrow> (string \<Rightarrow> int option) \<Rightarrow> int \<Rightarrow> stale_signals \<Rightarrow> stale_signals" where
  "stale_tick key expiration now g =
     (if \<not> truthy key then g
      else (case expiration (key_string key) of
              None \<Rightarrow> g
            | Some expiresAt \<Rightarrow>
                (let expirationIn = expiresAt - now;
                     g1 = (if expirationIn \<ge> 0 then g\<lparr>staleIn := expirationIn\<rparr>
                           else if expirationIn < 0 \<and> staleIn g > 0 then g\<lparr>staleIn := 0\<rparr>
                           else g)
                 in g1\<lparr>isStale := expiresAt < now\<rparr>)))"


subsection \<open>Auxiliary notions for the proofs\<close>

text \<open>A predicate on calls that no commit to the resource cell satisfies.\<close>

definition skips_commits :: "(('v, 'e, 'f) call \<Rightarrow> bool) \<Rightarrow> bool" where
  "skips_commits P = ((\<forall>a. \<not> P (Direct a)) \<and> (\<forall>t a. \<not> P (ViaTransition t a)))"

text \<open>
  The Subscription Set a state holds: the handles in the six variables, in the order in
  which \<open>localUnsubscribe\<close> invokes them.
\<close>

fun defined_handles :: "handle option list \<Rightarrow> handle list" where
  "defined_handles [] = []"
| "defined_handles (None # hs) = defined_handles hs"
| "defined_handles (Some h # hs) = h # defined_handles hs"

definition subscription_set :: "('v, 'e, 'f) resource \<Rightarrow> handle list" where
  "subscription_set s =
     defined_handles
       [unsubscribeMutations s, unsubscribeRefetching s, unsubscribeFocusRefetch s,
        unsubscribeConnectRefetch s, unsubscribeResolved s, unsubscribeErrors s]"

text \<open>A handler of the cache is bound to the key it was subscribed for.\<close>

fun bound_to :: "key_type \<Rightarrow> handle \<Rightarrow> bool" where
  "bound_to key (CacheListener i k n) = (key = KString k)"
| "bound_to key (WindowListener i w) = True"
| "bound_to key EmptyFunction = True"

text \<open>
  At most one Subscription Set is live: every handler that the cache or the window holds
  for the resource belongs to the set in the six variables, there are at most six of
  them, each handler of the cache is bound to the current key, and while any is live the
  effect's cleanup is registered.
\<close>

definition one_subscription_set :: "('v, 'e, 'f) resource \<Rightarrow> bool" where
  "one_subscription_set s =
     (list_all (\<lambda>h. h \<in> set (subscription_set s)) (listeners s)
      \<and> list_all (bound_to (currentKey s)) (listeners s)
      \<and> length (listeners s) \<le> 6
      \<and> (listeners s = [] \<or> cleanupRegistered s))"

text \<open>The calls of a teardown and of a setup.\<close>

definition teardown_calls :: "('v, 'e, 'f) resource \<Rightarrow> ('v, 'e, 'f) call list" where
  "teardown_calls s = (if cleanupRegistered s then map Invoke (subscription_set s) else [])"

definition setup_calls :: "'f env \<Rightarrow> key_type \<Rightarrow> ('v, 'e, 'f) call list" where
  "setup_calls env key =
     (if truthy key then
        [Subscribe (key_string key) OnMutated, Subscribe (key_string key) OnRefetching,
         Subscribe (key_string key) OnResolved, Subscribe (key_string key) OnError]
        @ (if refetchOnFocus env \<and> hasWindow env then [AddEventListener Focus] else [])
        @ (if refetchOnConnect env \<and> hasWindow env then [AddEventListener Online] else [])
      else [])"

text \<open>\<open>subscribed k n s\<close>: a handler of this resource is registered for event \<open>n\<close> of key \<open>k\<close>.\<close>

definition subscribed :: "string \<Rightarrow> event_name \<Rightarrow> ('v, 'e, 'f) resource \<Rightarrow> bool" where
  "subscribed k n s = list_ex (listens k n) (listeners s)"

text \<open>The number of \<open>query\<close> calls made so far.\<close>

definition queries :: "('v, 'e, 'f) resource \<Rightarrow> nat" where
  "queries s = length (filter is_query (calls s))"

text \<open>The calls of a state other than the commits to the resource cell.\<close>

definition calls_but_commits :: "('v, 'e, 'f) resource \<Rightarrow> ('v, 'e, 'f) call list" where
  "calls_but_commits s = filter (\<lambda>c. \<not> is_commit c) (calls s)"

text \<open>The inputs that can take handlers of the resource away.\<close>

fun tears_down :: "('v, 'e) input \<Rightarrow> bool" where
  "tears_down (KeyEvaluated r qa sub) = True"
| "tears_down (CacheDispatch k ev) = False"
| "tears_down (WindowFocus now stamp qa) = False"
| "tears_down (WindowOnline qa) = False"
| "tears_down (CallMutate v a) = False"
| "tears_down (CallRefetch qa) = False"
| "tears_down (CallForget a) = False"
| "tears_down (CallAbort reason a) = False"
| "tears_down CallUnsubscribe = True"
| "tears_down (CellLoading b) = False"
| "tears_down Dispose = True"

text \<open>Two states that differ in the Refetching Flag at most.\<close>

definition same_but_flag :: "('v, 'e, 'f) resource \<Rightarrow> ('v, 'e, 'f) resource \<Rightarrow> bool" where
  "same_but_flag s t = (t\<lparr>isRefetching := False\<rparr> = s\<lparr>isRefetching := False\<rparr>)"

section \<open>Frame lemmas\<close>

text \<open>What each function leaves unchanged, and which calls it adds.\<close>


lemma record_call_frame [simp]:
  "currentKey (record_call c s) = currentKey s"
  "isRefetching (record_call c s) = isRefetching s"
  "lastFocus (record_call c s) = lastFocus s"
  "loading (record_call c s) = loading s"
  "unsubscribeMutations (record_call c s) = unsubscribeMutations s"
  "unsubscribeRefetching (record_call c s) = unsubscribeRefetching s"
  "unsubscribeFocusRefetch (record_call c s) = unsubscribeFocusRefetch s"
  "unsubscribeConnectRefetch (record_call c s) = unsubscribeConnectRefetch s"
  "unsubscribeResolved (record_call c s) = unsubscribeResolved s"
  "unsubscribeErrors (record_call c s) = unsubscribeErrors s"
  "cleanupRegistered (record_call c s) = cleanupRegistered s"
  "listeners (record_call c s) = listeners s"
  "nextListener (record_call c s) = nextListener s"
  "calls (record_call c s) = calls s @ [c]"
  by (simp_all add: record_call_def)

lemma commit_frame [simp]:
  "currentKey (commit env a s) = currentKey s"
  "isRefetching (commit env a s) = isRefetching s"
  "lastFocus (commit env a s) = lastFocus s"
  "loading (commit env a s) = loading s"
  "unsubscribeMutations (commit env a s) = unsubscribeMutations s"
  "unsubscribeRefetching (commit env a s) = unsubscribeRefetching s"
  "unsubscribeFocusRefetch (commit env a s) = unsubscribeFocusRefetch s"
  "unsubscribeConnectRefetch (commit env a s) = unsubscribeConnectRefetch s"
  "unsubscribeResolved (commit env a s) = unsubscribeResolved s"
  "unsubscribeErrors (commit env a s) = unsubscribeErrors s"
  "cleanupRegistered (commit env a s) = cleanupRegistered s"
  "listeners (commit env a s) = listeners s"
  "nextListener (commit env a s) = nextListener s"
  by (simp_all add: commit_def split: option.splits)

lemma commit_calls:
  "calls (commit env a s) =
     calls s @ [case transition env of Some t \<Rightarrow> ViaTransition t a | None \<Rightarrow> Direct a]"
  by (simp add: commit_def split: option.splits)

lemma handler_frame [simp]:
  "currentKey (handler env ev s) = currentKey s"
  "lastFocus (handler env ev s) = lastFocus s"
  "loading (handler env ev s) = loading s"
  "unsubscribeMutations (handler env ev s) = unsubscribeMutations s"
  "unsubscribeRefetching (handler env ev s) = unsubscribeRefetching s"
  "unsubscribeFocusRefetch (handler env ev s) = unsubscribeFocusRefetch s"
  "unsubscribeConnectRefetch (handler env ev s) = unsubscribeConnectRefetch s"
  "unsubscribeResolved (handler env ev s) = unsubscribeResolved s"
  "unsubscribeErrors (handler env ev s) = unsubscribeErrors s"
  "cleanupRegistered (handler env ev s) = cleanupRegistered s"
  "listeners (handler env ev s) = listeners s"
  "nextListener (handler env ev s) = nextListener s"
  by (cases ev; simp add: on_mutated_def on_refetching_def on_resolved_def on_error_def Let_def)+


lemma skips_commits_examples [simp]:
  "skips_commits cache_operation" "skips_commits is_query"
  "skips_commits (\<lambda>c. \<not> is_commit c)"
  by (simp_all add: skips_commits_def)

lemma handler_calls:
  "skips_commits P \<Longrightarrow> filter P (calls (handler env ev s)) = filter P (calls s)"
  by (cases ev)
     (auto simp: skips_commits_def on_mutated_def on_refetching_def on_resolved_def
        on_error_def Let_def commit_calls split: option.splits)

lemma deliver_frame [simp]:
  "currentKey (deliver env k ev hs s) = currentKey s"
  "lastFocus (deliver env k ev hs s) = lastFocus s"
  "loading (deliver env k ev hs s) = loading s"
  "unsubscribeMutations (deliver env k ev hs s) = unsubscribeMutations s"
  "unsubscribeRefetching (deliver env k ev hs s) = unsubscribeRefetching s"
  "unsubscribeFocusRefetch (deliver env k ev hs s) = unsubscribeFocusRefetch s"
  "unsubscribeConnectRefetch (deliver env k ev hs s) = unsubscribeConnectRefetch s"
  "unsubscribeResolved (deliver env k ev hs s) = unsubscribeResolved s"
  "unsubscribeErrors (deliver env k ev hs s) = unsubscribeErrors s"
  "cleanupRegistered (deliver env k ev hs s) = cleanupRegistered s"
  "listeners (deliver env k ev hs s) = listeners s"
  "nextListener (deliver env k ev hs s) = nextListener s"
  by (induction hs arbitrary: s; simp)+

lemma deliver_calls:
  "skips_commits P \<Longrightarrow> filter P (calls (deliver env k ev hs s)) = filter P (calls s)"
  by (induction hs arbitrary: s) (simp_all add: handler_calls)

lemma dispatch_frame [simp]:
  "currentKey (dispatch env kev s) = currentKey s"
  "lastFocus (dispatch env kev s) = lastFocus s"
  "loading (dispatch env kev s) = loading s"
  "unsubscribeMutations (dispatch env kev s) = unsubscribeMutations s"
  "unsubscribeRefetching (dispatch env kev s) = unsubscribeRefetching s"
  "unsubscribeFocusRefetch (dispatch env kev s) = unsubscribeFocusRefetch s"
  "unsubscribeConnectRefetch (dispatch env kev s) = unsubscribeConnectRefetch s"
  "unsubscribeResolved (dispatch env kev s) = unsubscribeResolved s"
  "unsubscribeErrors (dispatch env kev s) = unsubscribeErrors s"
  "cleanupRegistered (dispatch env kev s) = cleanupRegistered s"
  "listeners (dispatch env kev s) = listeners s"
  "nextListener (dispatch env kev s) = nextListener s"
  by (simp_all add: dispatch_def)

lemma dispatch_calls:
  "skips_commits P \<Longrightarrow> filter P (calls (dispatch env kev s)) = filter P (calls s)"
  by (simp add: dispatch_def deliver_calls)

lemma react_frame [simp]:
  "currentKey (react env kevs s) = currentKey s"
  "lastFocus (react env kevs s) = lastFocus s"
  "loading (react env kevs s) = loading s"
  "unsubscribeMutations (react env kevs s) = unsubscribeMutations s"
  "unsubscribeRefetching (react env kevs s) = unsubscribeRefetching s"
  "unsubscribeFocusRefetch (react env kevs s) = unsubscribeFocusRefetch s"
  "unsubscribeConnectRefetch (react env kevs s) = unsubscribeConnectRefetch s"
  "unsubscribeResolved (react env kevs s) = unsubscribeResolved s"
  "unsubscribeErrors (react env kevs s) = unsubscribeErrors s"
  "cleanupRegistered (react env kevs s) = cleanupRegistered s"
  "listeners (react env kevs s) = listeners s"
  "nextListener (react env kevs s) = nextListener s"
  by (induction kevs arbitrary: s; simp)+

lemma react_calls:
  "skips_commits P \<Longrightarrow> filter P (calls (react env kevs s)) = filter P (calls s)"
  by (induction kevs arbitrary: s) (simp_all add: dispatch_calls)

lemma cache_call_frame [simp]:
  "currentKey (cache_call env c kevs s) = currentKey s"
  "lastFocus (cache_call env c kevs s) = lastFocus s"
  "loading (cache_call env c kevs s) = loading s"
  "unsubscribeMutations (cache_call env c kevs s) = unsubscribeMutations s"
  "unsubscribeRefetching (cache_call env c kevs s) = unsubscribeRefetching s"
  "unsubscribeFocusRefetch (cache_call env c kevs s) = unsubscribeFocusRefetch s"
  "unsubscribeConnectRefetch (cache_call env c kevs s) = unsubscribeConnectRefetch s"
  "unsubscribeResolved (cache_call env c kevs s) = unsubscribeResolved s"
  "unsubscribeErrors (cache_call env c kevs s) = unsubscribeErrors s"
  "cleanupRegistered (cache_call env c kevs s) = cleanupRegistered s"
  "listeners (cache_call env c kevs s) = listeners s"
  "nextListener (cache_call env c kevs s) = nextListener s"
  by (simp_all add: cache_call_def)

lemma cache_call_calls:
  "skips_commits P \<Longrightarrow>
   filter P (calls (cache_call env c kevs s)) = filter P (calls s) @ filter P [c]"
  by (simp add: cache_call_def react_calls)


lemma query_frame [simp]:
  "fst (query env k d qa s) = returned qa"
  "currentKey (snd (query env k d qa s)) = currentKey s"
  "lastFocus (snd (query env k d qa s)) = lastFocus s"
  "loading (snd (query env k d qa s)) = loading s"
  "unsubscribeMutations (snd (query env k d qa s)) = unsubscribeMutations s"
  "unsubscribeRefetching (snd (query env k d qa s)) = unsubscribeRefetching s"
  "unsubscribeFocusRefetch (snd (query env k d qa s)) = unsubscribeFocusRefetch s"
  "unsubscribeConnectRefetch (snd (query env k d qa s)) = unsubscribeConnectRefetch s"
  "unsubscribeResolved (snd (query env k d qa s)) = unsubscribeResolved s"
  "unsubscribeErrors (snd (query env k d qa s)) = unsubscribeErrors s"
  "cleanupRegistered (snd (query env k d qa s)) = cleanupRegistered s"
  "listeners (snd (query env k d qa s)) = listeners s"
  "nextListener (snd (query env k d qa s)) = nextListener s"
  by (simp_all add: query_def)

lemma query_calls:
  "skips_commits P \<Longrightarrow>
   filter P (calls (snd (query env k d qa s))) =
     filter P (calls s) @ filter P [Query k (spread_stale d env)]"
  by (simp add: query_def cache_call_calls)

lemma loader_frame [simp]:
  "currentKey (snd (loader env k info qa s)) = currentKey s"
  "lastFocus (snd (loader env k info qa s)) = lastFocus s"
  "loading (snd (loader env k info qa s)) = loading s"
  "unsubscribeMutations (snd (loader env k info qa s)) = unsubscribeMutations s"
  "unsubscribeRefetching (snd (loader env k info qa s)) = unsubscribeRefetching s"
  "unsubscribeFocusRefetch (snd (loader env k info qa s)) = unsubscribeFocusRefetch s"
  "unsubscribeConnectRefetch (snd (loader env k info qa s)) = unsubscribeConnectRefetch s"
  "unsubscribeResolved (snd (loader env k info qa s)) = unsubscribeResolved s"
  "unsubscribeErrors (snd (loader env k info qa s)) = unsubscribeErrors s"
  "cleanupRegistered (snd (loader env k info qa s)) = cleanupRegistered s"
  "listeners (snd (loader env k info qa s)) = listeners s"
  "nextListener (snd (loader env k info qa s)) = nextListener s"
  by (cases info; simp)+

lemma localRefetch_frame [simp]:
  "currentKey (snd (localRefetch env qa s)) = currentKey s"
  "lastFocus (snd (localRefetch env qa s)) = lastFocus s"
  "loading (snd (localRefetch env qa s)) = loading s"
  "unsubscribeMutations (snd (localRefetch env qa s)) = unsubscribeMutations s"
  "unsubscribeRefetching (snd (localRefetch env qa s)) = unsubscribeRefetching s"
  "unsubscribeFocusRefetch (snd (localRefetch env qa s)) = unsubscribeFocusRefetch s"
  "unsubscribeConnectRefetch (snd (localRefetch env qa s)) = unsubscribeConnectRefetch s"
  "unsubscribeResolved (snd (localRefetch env qa s)) = unsubscribeResolved s"
  "unsubscribeErrors (snd (localRefetch env qa s)) = unsubscribeErrors s"
  "cleanupRegistered (snd (localRefetch env qa s)) = cleanupRegistered s"
  "listeners (snd (localRefetch env qa s)) = listeners s"
  "nextListener (snd (localRefetch env qa s)) = nextListener s"
  by (simp_all add: localRefetch_def Let_def split_beta split: sum.splits)

lemma localRefetch_calls:
  assumes "skips_commits P"
  shows "filter P (calls (snd (localRefetch env qa s))) =
           (if truthy (currentKey s)
            then filter P (calls s) @ filter P [Query (key_string (currentKey s)) (spread_stale False env)]
            else filter P (calls s))"
proof -
  have c: "\<And>a t. filter P (calls (commit env a t)) = filter P (calls t)"
    using assms by (auto simp: commit_calls skips_commits_def split: option.splits)
  show ?thesis
    using assms
    by (simp add: localRefetch_def Let_def split_beta c query_calls split: sum.splits)
qed

lemma localMutate_frame [simp]:
  "currentKey (snd (localMutate env v a s)) = currentKey s"
  "lastFocus (snd (localMutate env v a s)) = lastFocus s"
  "loading (snd (localMutate env v a s)) = loading s"
  "unsubscribeMutations (snd (localMutate env v a s)) = unsubscribeMutations s"
  "unsubscribeRefetching (snd (localMutate env v a s)) = unsubscribeRefetching s"
  "unsubscribeFocusRefetch (snd (localMutate env v a s)) = unsubscribeFocusRefetch s"
  "unsubscribeConnectRefetch (snd (localMutate env v a s)) = unsubscribeConnectRefetch s"
  "unsubscribeResolved (snd (localMutate env v a s)) = unsubscribeResolved s"
  "unsubscribeErrors (snd (localMutate env v a s)) = unsubscribeErrors s"
  "cleanupRegistered (snd (localMutate env v a s)) = cleanupRegistered s"
  "listeners (snd (localMutate env v a s)) = listeners s"
  "nextListener (snd (localMutate env v a s)) = nextListener s"
  by (simp_all add: localMutate_def Let_def)

lemma localForget_frame [simp]:
  "currentKey (snd (localForget env a s)) = currentKey s"
  "lastFocus (snd (localForget env a s)) = lastFocus s"
  "loading (snd (localForget env a s)) = loading s"
  "unsubscribeMutations (snd (localForget env a s)) = unsubscribeMutations s"
  "unsubscribeRefetching (snd (localForget env a s)) = unsubscribeRefetching s"
  "unsubscribeFocusRefetch (snd (localForget env a s)) = unsubscribeFocusRefetch s"
  "unsubscribeConnectRefetch (snd (localForget env a s)) = unsubscribeConnectRefetch s"
  "unsubscribeResolved (snd (localForget env a s)) = unsubscribeResolved s"
  "unsubscribeErrors (snd (localForget env a s)) = unsubscribeErrors s"
  "cleanupRegistered (snd (localForget env a s)) = cleanupRegistered s"
  "listeners (snd (localForget env a s)) = listeners s"
  "nextListener (snd (localForget env a s)) = nextListener s"
  by (simp_all add: localForget_def Let_def)

lemma localAbort_frame [simp]:
  "currentKey (snd (localAbort env reason a s)) = currentKey s"
  "lastFocus (snd (localAbort env reason a s)) = lastFocus s"
  "loading (snd (localAbort env reason a s)) = loading s"
  "unsubscribeMutations (snd (localAbort env reason a s)) = unsubscribeMutations s"
  "unsubscribeRefetching (snd (localAbort env reason a s)) = unsubscribeRefetching s"
  "unsubscribeFocusRefetch (snd (localAbort env reason a s)) = unsubscribeFocusRefetch s"
  "unsubscribeConnectRefetch (snd (localAbort env reason a s)) = unsubscribeConnectRefetch s"
  "unsubscribeResolved (snd (localAbort env reason a s)) = unsubscribeResolved s"
  "unsubscribeErrors (snd (localAbort env reason a s)) = unsubscribeErrors s"
  "cleanupRegistered (snd (localAbort env reason a s)) = cleanupRegistered s"
  "listeners (snd (localAbort env reason a s)) = listeners s"
  "nextListener (snd (localAbort env reason a s)) = nextListener s"
  by (simp_all add: localAbort_def Let_def)

subsection \<open>Handles and subscriptions\<close>

lemma invoke_frame [simp]:
  "currentKey (invoke h s) = currentKey s"
  "isRefetching (invoke h s) = isRefetching s"
  "lastFocus (invoke h s) = lastFocus s"
  "loading (invoke h s) = loading s"
  "unsubscribeMutations (invoke h s) = unsubscribeMutations s"
  "unsubscribeRefetching (invoke h s) = unsubscribeRefetching s"
  "unsubscribeFocusRefetch (invoke h s) = unsubscribeFocusRefetch s"
  "unsubscribeConnectRefetch (invoke h s) = unsubscribeConnectRefetch s"
  "unsubscribeResolved (invoke h s) = unsubscribeResolved s"
  "unsubscribeErrors (invoke h s) = unsubscribeErrors s"
  "cleanupRegistered (invoke h s) = cleanupRegistered s"
  "nextListener (invoke h s) = nextListener s"
  by (cases h; simp)+

lemma invoke_listeners:
  "listeners (invoke h s) = filter (\<lambda>x. x \<notin> set (defined_handles [h])) (listeners s)"
  by (cases h) (simp_all add: removeAll_filter_not_eq eq_commute)

lemma invoke_calls:
  "calls (invoke h s) = calls s @ map Invoke (defined_handles [h])"
  by (cases h) simp_all

lemma defined_handles_append:
  "defined_handles (xs @ ys) = defined_handles xs @ defined_handles ys"
  by (induction xs rule: defined_handles.induct) simp_all

lemma defined_handles_Cons:
  "defined_handles (h # hs) = defined_handles [h] @ defined_handles hs"
  by (cases h) simp_all

lemma localUnsubscribe_frame [simp]:
  "currentKey (localUnsubscribe s) = currentKey s"
  "isRefetching (localUnsubscribe s) = isRefetching s"
  "lastFocus (localUnsubscribe s) = lastFocus s"
  "loading (localUnsubscribe s) = loading s"
  "unsubscribeMutations (localUnsubscribe s) = unsubscribeMutations s"
  "unsubscribeRefetching (localUnsubscribe s) = unsubscribeRefetching s"
  "unsubscribeFocusRefetch (localUnsubscribe s) = unsubscribeFocusRefetch s"
  "unsubscribeConnectRefetch (localUnsubscribe s) = unsubscribeConnectRefetch s"
  "unsubscribeResolved (localUnsubscribe s) = unsubscribeResolved s"
  "unsubscribeErrors (localUnsubscribe s) = unsubscribeErrors s"
  "cleanupRegistered (localUnsubscribe s) = cleanupRegistered s"
  "nextListener (localUnsubscribe s) = nextListener s"
  by (simp_all add: localUnsubscribe_def Let_def)

lemma localUnsubscribe_calls:
  "calls (localUnsubscribe s) = calls s @ map Invoke (subscription_set s)"
  by (simp add: localUnsubscribe_def Let_def invoke_calls subscription_set_def
        defined_handles_Cons [of _ "_ # _"])

lemma localUnsubscribe_listeners:
  "listeners (localUnsubscribe s) = filter (\<lambda>x. x \<notin> set (subscription_set s)) (listeners s)"
proof -
  have "\<And>h. (h \<notin> set (subscription_set s)) =
      (h \<notin> set (defined_handles [unsubscribeErrors s])
       \<and> h \<notin> set (defined_handles [unsubscribeResolved s])
       \<and> h \<notin> set (defined_handles [unsubscribeConnectRefetch s])
       \<and> h \<notin> set (defined_handles [unsubscribeFocusRefetch s])
       \<and> h \<notin> set (defined_handles [unsubscribeRefetching s])
       \<and> h \<notin> set (defined_handles [unsubscribeMutations s]))"
    by (auto simp: subscription_set_def defined_handles_Cons [of _ "_ # _"])
  then show ?thesis
    by (simp add: localUnsubscribe_def Let_def invoke_listeners conj_ac)
qed

lemma subscription_set_localUnsubscribe [simp]:
  "subscription_set (localUnsubscribe s) = subscription_set s"
  by (simp add: subscription_set_def)

lemma run_cleanup_frame [simp]:
  "currentKey (run_cleanup s) = currentKey s"
  "isRefetching (run_cleanup s) = isRefetching s"
  "lastFocus (run_cleanup s) = lastFocus s"
  "loading (run_cleanup s) = loading s"
  "unsubscribeMutations (run_cleanup s) = unsubscribeMutations s"
  "unsubscribeRefetching (run_cleanup s) = unsubscribeRefetching s"
  "unsubscribeFocusRefetch (run_cleanup s) = unsubscribeFocusRefetch s"
  "unsubscribeConnectRefetch (run_cleanup s) = unsubscribeConnectRefetch s"
  "unsubscribeResolved (run_cleanup s) = unsubscribeResolved s"
  "unsubscribeErrors (run_cleanup s) = unsubscribeErrors s"
  "cleanupRegistered (run_cleanup s) = False"
  "nextListener (run_cleanup s) = nextListener s"
  by (simp_all add: run_cleanup_def)

lemma run_cleanup_calls:
  "calls (run_cleanup s) = calls s @ teardown_calls s"
  by (simp add: run_cleanup_def teardown_calls_def localUnsubscribe_calls)

lemma run_cleanup_listeners:
  "listeners (run_cleanup s) =
     (if cleanupRegistered s then filter (\<lambda>x. x \<notin> set (subscription_set s)) (listeners s)
      else listeners s)"
  by (simp add: run_cleanup_def localUnsubscribe_listeners)


lemma subscribe_result [simp]:
  "fst (subscribe env k n rs s) = CacheListener (nextListener s) k n"
  "currentKey (snd (subscribe env k n rs s)) = currentKey s"
  "lastFocus (snd (subscribe env k n rs s)) = lastFocus s"
  "loading (snd (subscribe env k n rs s)) = loading s"
  "unsubscribeMutations (snd (subscribe env k n rs s)) = unsubscribeMutations s"
  "unsubscribeRefetching (snd (subscribe env k n rs s)) = unsubscribeRefetching s"
  "unsubscribeFocusRefetch (snd (subscribe env k n rs s)) = unsubscribeFocusRefetch s"
  "unsubscribeConnectRefetch (snd (subscribe env k n rs s)) = unsubscribeConnectRefetch s"
  "unsubscribeResolved (snd (subscribe env k n rs s)) = unsubscribeResolved s"
  "unsubscribeErrors (snd (subscribe env k n rs s)) = unsubscribeErrors s"
  "cleanupRegistered (snd (subscribe env k n rs s)) = cleanupRegistered s"
  "listeners (snd (subscribe env k n rs s)) = listeners s @ [CacheListener (nextListener s) k n]"
  "nextListener (snd (subscribe env k n rs s)) = Suc (nextListener s)"
  by (simp_all add: subscribe_def)

lemma subscribe_calls:
  "skips_commits P \<Longrightarrow>
   filter P (calls (snd (subscribe env k n rs s))) = filter P (calls s) @ filter P [Subscribe k n]"
  by (simp add: subscribe_def react_calls)

lemma subscribe_silent [simp]:
  "isRefetching (snd (subscribe env k n [] s)) = isRefetching s"
  "calls (snd (subscribe env k n [] s)) = calls s @ [Subscribe k n]"
  by (simp_all add: subscribe_def)

lemma onFocus_result [simp]:
  "fst (onFocus env s) =
     (if refetchOnFocus env \<and> hasWindow env then WindowListener (nextListener s) Focus
      else EmptyFunction)"
  "currentKey (snd (onFocus env s)) = currentKey s"
  "isRefetching (snd (onFocus env s)) = isRefetching s"
  "lastFocus (snd (onFocus env s)) = lastFocus s"
  "loading (snd (onFocus env s)) = loading s"
  "unsubscribeMutations (snd (onFocus env s)) = unsubscribeMutations s"
  "unsubscribeRefetching (snd (onFocus env s)) = unsubscribeRefetching s"
  "unsubscribeFocusRefetch (snd (onFocus env s)) = unsubscribeFocusRefetch s"
  "unsubscribeConnectRefetch (snd (onFocus env s)) = unsubscribeConnectRefetch s"
  "unsubscribeResolved (snd (onFocus env s)) = unsubscribeResolved s"
  "unsubscribeErrors (snd (onFocus env s)) = unsubscribeErrors s"
  "cleanupRegistered (snd (onFocus env s)) = cleanupRegistered s"
  "listeners (snd (onFocus env s)) =
     listeners s @ (if refetchOnFocus env \<and> hasWindow env
                    then [WindowListener (nextListener s) Focus] else [])"
  "nextListener (snd (onFocus env s)) =
     (if refetchOnFocus env \<and> hasWindow env then Suc (nextListener s) else nextListener s)"
  "calls (snd (onFocus env s)) =
     calls s @ (if refetchOnFocus env \<and> hasWindow env then [AddEventListener Focus] else [])"
  by (simp_all add: onFocus_def addEventListener_def)

lemma onConnect_result [simp]:
  "fst (onConnect env s) =
     (if refetchOnConnect env \<and> hasWindow env then WindowListener (nextListener s) Online
      else EmptyFunction)"
  "currentKey (snd (onConnect env s)) = currentKey s"
  "isRefetching (snd (onConnect env s)) = isRefetching s"
  "lastFocus (snd (onConnect env s)) = lastFocus s"
  "loading (snd (onConnect env s)) = loading s"
  "unsubscribeMutations (snd (onConnect env s)) = unsubscribeMutations s"
  "unsubscribeRefetching (snd (onConnect env s)) = unsubscribeRefetching s"
  "unsubscribeFocusRefetch (snd (onConnect env s)) = unsubscribeFocusRefetch s"
  "unsubscribeConnectRefetch (snd (onConnect env s)) = unsubscribeConnectRefetch s"
  "unsubscribeResolved (snd (onConnect env s)) = unsubscribeResolved s"
  "unsubscribeErrors (snd (onConnect env s)) = unsubscribeErrors s"
  "cleanupRegistered (snd (onConnect env s)) = cleanupRegistered s"
  "listeners (snd (onConnect env s)) =
     listeners s @ (if refetchOnConnect env \<and> hasWindow env
                    then [WindowListener (nextListener s) Online] else [])"
  "nextListener (snd (onConnect env s)) =
     (if refetchOnConnect env \<and> hasWindow env then Suc (nextListener s) else nextListener s)"
  "calls (snd (onConnect env s)) =
     calls s @ (if refetchOnConnect env \<and> hasWindow env then [AddEventListener Online] else [])"
  by (simp_all add: onConnect_def addEventListener_def)

lemma subscribe_all_frame [simp]:
  "currentKey (subscribe_all env k sub s) = currentKey s"
  "lastFocus (subscribe_all env k sub s) = lastFocus s"
  "loading (subscribe_all env k sub s) = loading s"
  "cleanupRegistered (subscribe_all env k sub s) = cleanupRegistered s"
  by (simp_all add: subscribe_all_def split_beta)

lemma filter_setup_calls:
  "filter (\<lambda>c. \<not> is_commit c) (setup_calls env key) = setup_calls env key"
  "filter cache_operation (setup_calls env key) =
     (if truthy key then
        [Subscribe (key_string key) OnMutated, Subscribe (key_string key) OnRefetching,
         Subscribe (key_string key) OnResolved, Subscribe (key_string key) OnError]
      else [])"
  "filter is_query (setup_calls env key) = []"
  by (simp_all add: setup_calls_def)

lemma subscribe_all_calls:
  assumes "skips_commits P" and "truthy (KString k)"
  shows "filter P (calls (subscribe_all env k sub s)) =
           filter P (calls s) @ filter P (setup_calls env (KString k))"
  using assms
  by (simp add: subscribe_all_def split_beta setup_calls_def subscribe_calls)

lemma subscribe_all_silent:
  assumes "sub OnMutated = []" and "sub OnRefetching = []" and "sub OnResolved = []"
    and "sub OnError = []"
  shows "isRefetching (subscribe_all env k sub s) = isRefetching s"
    and "truthy (KString k) \<Longrightarrow>
         calls (subscribe_all env k sub s) = calls s @ setup_calls env (KString k)"
  using assms by (simp_all add: subscribe_all_def split_beta setup_calls_def)

lemma subscribe_all_listeners:
  "listeners (subscribe_all env k sub s) =
     listeners s
     @ [CacheListener (nextListener s) k OnMutated,
        CacheListener (nextListener s + 1) k OnRefetching,
        CacheListener (nextListener s + 2) k OnResolved,
        CacheListener (nextListener s + 3) k OnError]
     @ (if refetchOnFocus env \<and> hasWindow env
        then [WindowListener (nextListener s + 4) Focus] else [])
     @ (if refetchOnConnect env \<and> hasWindow env
        then [WindowListener
                (if refetchOnFocus env \<and> hasWindow env then nextListener s + 5
                 else nextListener s + 4) Online]
        else [])"
  by (simp add: subscribe_all_def split_beta)

lemma subscribe_all_set:
  "subscription_set (subscribe_all env k sub s) =
     [CacheListener (nextListener s) k OnMutated,
      CacheListener (nextListener s + 1) k OnRefetching,
      (if refetchOnFocus env \<and> hasWindow env
        then WindowListener (nextListener s + 4) Focus else EmptyFunction),
      (if refetchOnConnect env \<and> hasWindow env
        then WindowListener
                (if refetchOnFocus env \<and> hasWindow env then nextListener s + 5
                 else nextListener s + 4) Online
        else EmptyFunction),
      CacheListener (nextListener s + 2) k OnResolved,
      CacheListener (nextListener s + 3) k OnError]"
  by (simp add: subscribe_all_def split_beta subscription_set_def)

subsection \<open>The effect\<close>

lemma effect_body_frame [simp]:
  "currentKey (effect_body env sub s) = currentKey s"
  "lastFocus (effect_body env sub s) = lastFocus s"
  "loading (effect_body env sub s) = loading s"
  "cleanupRegistered (effect_body env sub s) = (truthy (currentKey s) \<or> cleanupRegistered s)"
  by (simp_all add: effect_body_def Let_def)

lemma truthy_key_string: "truthy key \<Longrightarrow> KString (key_string key) = key"
  by (cases key) simp_all

lemma setup_calls_not_truthy [simp]: "\<not> truthy key \<Longrightarrow> setup_calls env key = []"
  by (simp add: setup_calls_def)

lemma effect_body_calls:
  assumes "skips_commits P"
  shows "filter P (calls (effect_body env sub s)) =
           filter P (calls s) @ filter P (setup_calls env (currentKey s))"
proof (cases "truthy (currentKey s)")
  case True
  then have "truthy (KString (key_string (currentKey s)))"
    by (simp add: truthy_key_string)
  then show ?thesis
    using True assms
    by (simp add: effect_body_def Let_def subscribe_all_calls truthy_key_string)
next
  case False
  then show ?thesis by (simp add: effect_body_def Let_def)
qed

lemma effect_body_not_truthy:
  "\<not> truthy (currentKey s) \<Longrightarrow> effect_body env sub s = s\<lparr>isRefetching := False\<rparr>"
  by (simp add: effect_body_def Let_def)

lemma effect_body_silent:
  assumes "sub OnMutated = []" and "sub OnRefetching = []" and "sub OnResolved = []"
    and "sub OnError = []"
  shows "isRefetching (effect_body env sub s) = False"
    and "calls (effect_body env sub s) = calls s @ setup_calls env (currentKey s)"
proof -
  show "isRefetching (effect_body env sub s) = False"
    using assms by (simp add: effect_body_def Let_def subscribe_all_silent)
  show "calls (effect_body env sub s) = calls s @ setup_calls env (currentKey s)"
  proof (cases "truthy (currentKey s)")
    case True
    then have "truthy (KString (key_string (currentKey s)))"
      by (simp add: truthy_key_string)
    then show ?thesis
      using True assms
      by (simp add: effect_body_def Let_def subscribe_all_silent truthy_key_string)
  next
    case False
    then show ?thesis by (simp add: effect_body_def Let_def)
  qed
qed

lemma effect_body_listeners:
  "listeners (effect_body env sub s) =
     (if truthy (currentKey s)
      then listeners (subscribe_all env (key_string (currentKey s)) sub s)
      else listeners s)"
  by (simp add: effect_body_def Let_def subscribe_all_listeners)

lemma subscription_set_update [simp]:
  "subscription_set (s\<lparr>currentKey := k\<rparr>) = subscription_set s"
  "subscription_set (s\<lparr>isRefetching := b\<rparr>) = subscription_set s"
  "subscription_set (s\<lparr>lastFocus := n\<rparr>) = subscription_set s"
  "subscription_set (s\<lparr>loading := b\<rparr>) = subscription_set s"
  "subscription_set (s\<lparr>cleanupRegistered := b\<rparr>) = subscription_set s"
  "subscription_set (s\<lparr>listeners := hs\<rparr>) = subscription_set s"
  "subscription_set (s\<lparr>calls := cs\<rparr>) = subscription_set s"
  by (simp_all add: subscription_set_def)

lemma effect_body_set:
  "subscription_set (effect_body env sub s) =
     (if truthy (currentKey s)
      then subscription_set (subscribe_all env (key_string (currentKey s)) sub s)
      else subscription_set s)"
  by (simp add: effect_body_def Let_def subscribe_all_set)

lemma effect_frame [simp]:
  "currentKey (effect env sub s) = currentKey s"
  "lastFocus (effect env sub s) = lastFocus s"
  "loading (effect env sub s) = loading s"
  "cleanupRegistered (effect env sub s) = truthy (currentKey s)"
  by (simp_all add: effect_def)

lemma filter_teardown_calls:
  "filter (\<lambda>c. \<not> is_commit c) (teardown_calls s) = teardown_calls s"
  "filter cache_operation (teardown_calls s) = []"
  "filter is_query (teardown_calls s) = []"
  by (auto simp: teardown_calls_def filter_empty_conv filter_id_conv)

lemma effect_calls:
  assumes "skips_commits P"
  shows "filter P (calls (effect env sub s)) =
           filter P (calls s) @ filter P (teardown_calls s)
           @ filter P (setup_calls env (currentKey s))"
  using assms by (simp add: effect_def effect_body_calls run_cleanup_calls)

lemma effect_not_truthy:
  "\<not> truthy (currentKey s) \<Longrightarrow>
   isRefetching (effect env sub s) = False \<and> calls (effect env sub s) = calls s @ teardown_calls s"
  by (simp add: effect_def effect_body_not_truthy run_cleanup_calls)

lemma effect_silent:
  assumes "sub OnMutated = []" and "sub OnRefetching = []" and "sub OnResolved = []"
    and "sub OnError = []"
  shows "isRefetching (effect env sub s) = False"
    and "calls (effect env sub s) = calls s @ teardown_calls s @ setup_calls env (currentKey s)"
  using assms by (simp_all add: effect_def effect_body_silent run_cleanup_calls)

lemma resource_load_frame [simp]:
  "currentKey (resource_load env qa s) = currentKey s"
  "lastFocus (resource_load env qa s) = lastFocus s"
  "unsubscribeMutations (resource_load env qa s) = unsubscribeMutations s"
  "unsubscribeRefetching (resource_load env qa s) = unsubscribeRefetching s"
  "unsubscribeFocusRefetch (resource_load env qa s) = unsubscribeFocusRefetch s"
  "unsubscribeConnectRefetch (resource_load env qa s) = unsubscribeConnectRefetch s"
  "unsubscribeResolved (resource_load env qa s) = unsubscribeResolved s"
  "unsubscribeErrors (resource_load env qa s) = unsubscribeErrors s"
  "cleanupRegistered (resource_load env qa s) = cleanupRegistered s"
  "listeners (resource_load env qa s) = listeners s"
  "nextListener (resource_load env qa s) = nextListener s"
  by (simp_all add: resource_load_def split_beta split: sum.splits)

lemma resource_load_loading:
  "loading (resource_load env qa s) =
     (if is_string (currentKey s) then (case returned qa of Inl e \<Rightarrow> loading s | Inr p \<Rightarrow> True)
      else loading s)"
  by (simp add: resource_load_def split_beta query_def split: sum.splits)

lemma resource_load_not_string:
  "\<not> is_string (currentKey s) \<Longrightarrow> resource_load env qa s = s"
  by (simp add: resource_load_def)

lemma resource_load_calls:
  "skips_commits P \<Longrightarrow>
   filter P (calls (resource_load env qa s)) =
     filter P (calls s)
     @ (if is_string (currentKey s)
        then filter P [Query (key_string (currentKey s)) (spread_stale True env)] else [])"
  by (simp add: resource_load_def split_beta query_calls split: sum.splits)

text \<open>The part of the invariant that a change of the key does not disturb.\<close>

lemma run_cleanup_clears:
  assumes "list_all (\<lambda>h. h \<in> set (subscription_set s)) (listeners s)"
    and "listeners s = [] \<or> cleanupRegistered s"
  shows "listeners (run_cleanup s) = []"
  using assms by (auto simp: run_cleanup_listeners list_all_iff filter_empty_conv)

lemma effect_establishes:
  assumes "list_all (\<lambda>h. h \<in> set (subscription_set s)) (listeners s)"
    and "listeners s = [] \<or> cleanupRegistered s"
  shows "one_subscription_set (effect env sub s)"
proof -
  let ?t = "run_cleanup s"
  have empty: "listeners ?t = []"
    using assms by (rule run_cleanup_clears)
  show ?thesis
  proof (cases "truthy (currentKey s)")
    case True
    then have key: "currentKey s = KString (key_string (currentKey s))"
      by (simp add: truthy_key_string)
    show ?thesis
      using True empty key
      by (simp add: one_subscription_set_def effect_def effect_body_listeners effect_body_set
            subscribe_all_listeners subscribe_all_set)
  next
    case False
    then show ?thesis
      using empty
      by (simp add: one_subscription_set_def effect_def effect_body_listeners)
  qed
qed

subsection \<open>One Subscription Set in every reachable state\<close>

lemma refetch_listener_frame [simp]:
  "currentKey (refetch_listener env qa s) = currentKey s"
  "lastFocus (refetch_listener env qa s) = lastFocus s"
  "loading (refetch_listener env qa s) = loading s"
  "unsubscribeMutations (refetch_listener env qa s) = unsubscribeMutations s"
  "unsubscribeRefetching (refetch_listener env qa s) = unsubscribeRefetching s"
  "unsubscribeFocusRefetch (refetch_listener env qa s) = unsubscribeFocusRefetch s"
  "unsubscribeConnectRefetch (refetch_listener env qa s) = unsubscribeConnectRefetch s"
  "unsubscribeResolved (refetch_listener env qa s) = unsubscribeResolved s"
  "unsubscribeErrors (refetch_listener env qa s) = unsubscribeErrors s"
  "cleanupRegistered (refetch_listener env qa s) = cleanupRegistered s"
  "listeners (refetch_listener env qa s) = listeners s"
  "nextListener (refetch_listener env qa s) = nextListener s"
  by (simp_all add: refetch_listener_def)

lemma rawHandler_frame [simp]:
  "currentKey (rawHandler env (refetch_listener env qa) now stamp s) = currentKey s"
  "loading (rawHandler env (refetch_listener env qa) now stamp s) = loading s"
  "unsubscribeMutations (rawHandler env (refetch_listener env qa) now stamp s) = unsubscribeMutations s"
  "unsubscribeRefetching (rawHandler env (refetch_listener env qa) now stamp s) = unsubscribeRefetching s"
  "unsubscribeFocusRefetch (rawHandler env (refetch_listener env qa) now stamp s) = unsubscribeFocusRefetch s"
  "unsubscribeConnectRefetch (rawHandler env (refetch_listener env qa) now stamp s) = unsubscribeConnectRefetch s"
  "unsubscribeResolved (rawHandler env (refetch_listener env qa) now stamp s) = unsubscribeResolved s"
  "unsubscribeErrors (rawHandler env (refetch_listener env qa) now stamp s) = unsubscribeErrors s"
  "cleanupRegistered (rawHandler env (refetch_listener env qa) now stamp s) = cleanupRegistered s"
  "listeners (rawHandler env (refetch_listener env qa) now stamp s) = listeners s"
  "nextListener (rawHandler env (refetch_listener env qa) now stamp s) = nextListener s"
  by (simp_all add: rawHandler_def Let_def)

lemma fire_focus_frame [simp]:
  "currentKey (fire_focus env now stamp qa hs s) = currentKey s"
  "loading (fire_focus env now stamp qa hs s) = loading s"
  "unsubscribeMutations (fire_focus env now stamp qa hs s) = unsubscribeMutations s"
  "unsubscribeRefetching (fire_focus env now stamp qa hs s) = unsubscribeRefetching s"
  "unsubscribeFocusRefetch (fire_focus env now stamp qa hs s) = unsubscribeFocusRefetch s"
  "unsubscribeConnectRefetch (fire_focus env now stamp qa hs s) = unsubscribeConnectRefetch s"
  "unsubscribeResolved (fire_focus env now stamp qa hs s) = unsubscribeResolved s"
  "unsubscribeErrors (fire_focus env now stamp qa hs s) = unsubscribeErrors s"
  "cleanupRegistered (fire_focus env now stamp qa hs s) = cleanupRegistered s"
  "listeners (fire_focus env now stamp qa hs s) = listeners s"
  "nextListener (fire_focus env now stamp qa hs s) = nextListener s"
  by (induction hs arbitrary: s; simp)+

lemma fire_online_frame [simp]:
  "currentKey (fire_online env qa hs s) = currentKey s"
  "lastFocus (fire_online env qa hs s) = lastFocus s"
  "loading (fire_online env qa hs s) = loading s"
  "unsubscribeMutations (fire_online env qa hs s) = unsubscribeMutations s"
  "unsubscribeRefetching (fire_online env qa hs s) = unsubscribeRefetching s"
  "unsubscribeFocusRefetch (fire_online env qa hs s) = unsubscribeFocusRefetch s"
  "unsubscribeConnectRefetch (fire_online env qa hs s) = unsubscribeConnectRefetch s"
  "unsubscribeResolved (fire_online env qa hs s) = unsubscribeResolved s"
  "unsubscribeErrors (fire_online env qa hs s) = unsubscribeErrors s"
  "cleanupRegistered (fire_online env qa hs s) = cleanupRegistered s"
  "listeners (fire_online env qa hs s) = listeners s"
  "nextListener (fire_online env qa hs s) = nextListener s"
  by (induction hs arbitrary: s; simp)+

lemma one_subscription_set_weak:
  assumes "one_subscription_set s"
  shows "list_all (\<lambda>h. h \<in> set (subscription_set s)) (listeners s)"
    and "listeners s = [] \<or> cleanupRegistered s"
  using assms by (simp_all add: one_subscription_set_def)

lemma key_evaluated_preserves:
  assumes "one_subscription_set s"
  shows "one_subscription_set (key_evaluated env r qa sub s)"
proof (cases "keyMemo r = currentKey s")
  case True
  then show ?thesis using assms by (simp add: key_evaluated_def)
next
  case False
  let ?t = "resource_load env qa (s\<lparr>currentKey := keyMemo r\<rparr>)"
  have "subscription_set ?t = subscription_set s"
    by (simp add: subscription_set_def)
  then have "list_all (\<lambda>h. h \<in> set (subscription_set ?t)) (listeners ?t)"
    and "listeners ?t = [] \<or> cleanupRegistered ?t"
    using one_subscription_set_weak [OF assms] by simp_all
  then have "one_subscription_set (effect env sub ?t)"
    by (rule effect_establishes)
  then show ?thesis
    using False by (simp add: key_evaluated_def)
qed

lemma localUnsubscribe_preserves:
  assumes "one_subscription_set s"
  shows "one_subscription_set (localUnsubscribe s)"
proof -
  have "listeners (localUnsubscribe s) = []"
    using one_subscription_set_weak(1) [OF assms]
    by (auto simp: localUnsubscribe_listeners list_all_iff filter_empty_conv)
  then show ?thesis
    by (simp add: one_subscription_set_def)
qed

lemma run_cleanup_preserves:
  assumes "one_subscription_set s"
  shows "one_subscription_set (run_cleanup s)"
proof -
  have "listeners (run_cleanup s) = []"
    using one_subscription_set_weak [OF assms] by (rule run_cleanup_clears)
  then show ?thesis
    by (simp add: one_subscription_set_def)
qed

lemma frame_preserves:
  assumes "one_subscription_set s"
    and "listeners t = listeners s" and "currentKey t = currentKey s"
    and "cleanupRegistered t = cleanupRegistered s"
    and "unsubscribeMutations t = unsubscribeMutations s"
    and "unsubscribeRefetching t = unsubscribeRefetching s"
    and "unsubscribeFocusRefetch t = unsubscribeFocusRefetch s"
    and "unsubscribeConnectRefetch t = unsubscribeConnectRefetch s"
    and "unsubscribeResolved t = unsubscribeResolved s"
    and "unsubscribeErrors t = unsubscribeErrors s"
  shows "one_subscription_set t"
  using assms by (simp add: one_subscription_set_def subscription_set_def)

lemma step_preserves:
  assumes "one_subscription_set s"
  shows "one_subscription_set (step env i s)"
proof (cases i)
  case (KeyEvaluated r qa sub)
  then show ?thesis using assms by (simp add: key_evaluated_preserves)
next
  case (CacheDispatch k ev)
  have "one_subscription_set (dispatch env (k, ev) s)"
    by (rule frame_preserves [OF assms]) simp_all
  then show ?thesis using CacheDispatch by simp
next
  case (WindowFocus now stamp qa)
  have "one_subscription_set (window_focus env now stamp qa s)"
    by (rule frame_preserves [OF assms]) (simp_all add: window_focus_def)
  then show ?thesis using WindowFocus by simp
next
  case (WindowOnline qa)
  have "one_subscription_set (window_online env qa s)"
    by (rule frame_preserves [OF assms]) (simp_all add: window_online_def)
  then show ?thesis using WindowOnline by simp
next
  case (CallMutate v a)
  have "one_subscription_set (snd (localMutate env v a s))"
    by (rule frame_preserves [OF assms]) simp_all
  then show ?thesis using CallMutate by simp
next
  case (CallRefetch qa)
  have "one_subscription_set (snd (localRefetch env qa s))"
    by (rule frame_preserves [OF assms]) simp_all
  then show ?thesis using CallRefetch by simp
next
  case (CallForget a)
  have "one_subscription_set (snd (localForget env a s))"
    by (rule frame_preserves [OF assms]) simp_all
  then show ?thesis using CallForget by simp
next
  case (CallAbort reason a)
  have "one_subscription_set (snd (localAbort env reason a s))"
    by (rule frame_preserves [OF assms]) simp_all
  then show ?thesis using CallAbort by simp
next
  case CallUnsubscribe
  then show ?thesis using assms by (simp add: localUnsubscribe_preserves)
next
  case (CellLoading b)
  have "one_subscription_set (s\<lparr>loading := b\<rparr>)"
    by (rule frame_preserves [OF assms]) simp_all
  then show ?thesis using CellLoading by simp
next
  case Dispose
  then show ?thesis using assms by (simp add: run_cleanup_preserves)
qed

lemma run_preserves:
  "one_subscription_set s \<Longrightarrow> one_subscription_set (run env is s)"
  by (induction "is" arbitrary: s) (simp_all add: step_preserves)

lemma created_one_subscription_set:
  "one_subscription_set (createTurboResource env now r qa sub)"
  unfolding createTurboResource_def
  by (rule effect_establishes) (simp_all add: blank_def)

lemma reachable_one_subscription_set:
  "one_subscription_set (run env is (createTurboResource env now r qa sub))"
  by (rule run_preserves) (rule created_one_subscription_set)

subsection \<open>Delivery, focus and staleness\<close>

text \<open>Delivery and the flag.\<close>

lemma deliver_nobody:
  "list_all (\<lambda>h. \<not> listens k (name_of ev) h) hs \<Longrightarrow> deliver env k ev hs s = s"
  by (induction hs arbitrary: s) simp_all

lemma deliver_flag:
  "isRefetching (deliver env k (RefetchingEvent p) hs s) =
     (list_ex (listens k OnRefetching) hs \<or> isRefetching s)"
  "isRefetching (deliver env k ResolvedEvent hs s) =
     (\<not> list_ex (listens k OnResolved) hs \<and> isRefetching s)"
  "isRefetching (deliver env k ErrorEvent hs s) =
     (\<not> list_ex (listens k OnError) hs \<and> isRefetching s)"
  "isRefetching (deliver env k (MutatedEvent v) hs s) = isRefetching s"
  by (induction hs arbitrary: s;
      auto simp: on_refetching_def on_resolved_def on_error_def on_mutated_def Let_def)+

lemma dispatch_flag:
  "isRefetching (dispatch env (k, RefetchingEvent p) s) =
     (subscribed k OnRefetching s \<or> isRefetching s)"
  "isRefetching (dispatch env (k, ResolvedEvent) s) =
     (\<not> subscribed k OnResolved s \<and> isRefetching s)"
  "isRefetching (dispatch env (k, ErrorEvent) s) =
     (\<not> subscribed k OnError s \<and> isRefetching s)"
  "isRefetching (dispatch env (k, MutatedEvent v) s) = isRefetching s"
  by (simp_all add: dispatch_def subscribed_def deliver_flag)

lemma dispatch_unheard:
  "\<not> subscribed k (name_of ev) s \<Longrightarrow> dispatch env (k, ev) s = s"
  by (simp add: dispatch_def subscribed_def deliver_nobody list_all_iff list_ex_iff)

lemma dispatch_foreign_key:
  assumes "list_all (bound_to (currentKey s)) (listeners s)" and "currentKey s \<noteq> KString k"
  shows "dispatch env (k, ev) s = s"
proof -
  have "list_all (\<lambda>h. \<not> listens k (name_of ev) h) (listeners s)"
    unfolding list_all_iff
  proof
    fix h assume "h \<in> set (listeners s)"
    then have "bound_to (currentKey s) h"
      using assms(1) by (simp add: list_all_iff)
    then show "\<not> listens k (name_of ev) h"
      using assms(2) by (cases h) auto
  qed
  then show ?thesis
    by (simp add: dispatch_def deliver_nobody)
qed

lemma localRefetch_flag:
  assumes "truthy (currentKey s)"
  shows "query_reaction qa = [(key_string (currentKey s), RefetchingEvent p)] \<Longrightarrow>
         isRefetching (snd (localRefetch env qa s)) =
           (subscribed (key_string (currentKey s)) OnRefetching s \<or> isRefetching s)"
    and "query_reaction qa = [] \<Longrightarrow>
         isRefetching (snd (localRefetch env qa s)) = isRefetching s"
proof -
  have r: "isRefetching (snd (localRefetch env qa s)) =
           isRefetching (snd (query env (key_string (currentKey s)) False qa s))"
    using assms by (simp add: localRefetch_def Let_def split_beta split: sum.splits)
  show "query_reaction qa = [(key_string (currentKey s), RefetchingEvent p)] \<Longrightarrow>
         isRefetching (snd (localRefetch env qa s)) =
           (subscribed (key_string (currentKey s)) OnRefetching s \<or> isRefetching s)"
    unfolding r by (simp add: query_def cache_call_def dispatch_flag subscribed_def)
  show "query_reaction qa = [] \<Longrightarrow>
         isRefetching (snd (localRefetch env qa s)) = isRefetching s"
    unfolding r by (simp add: query_def cache_call_def)
qed

lemma subscribe_replay:
  "isRefetching (snd (subscribe env k OnRefetching [(k, RefetchingEvent p)] s))"
  by (simp add: subscribe_def dispatch_flag subscribed_def)

lemma subscribe_all_replay:
  assumes "sub OnRefetching = [(k, RefetchingEvent p)]" and "sub OnResolved = []"
    and "sub OnError = []"
  shows "isRefetching (subscribe_all env k sub s)"
  using assms by (simp add: subscribe_all_def split_beta subscribe_replay)

text \<open>
  Two states that differ in the flag at most stay so under everything that happens
  before the effect resets the flag; so the flag before a change of the key has no
  influence on the state after it.
\<close>

lemma same_but_flagD: "same_but_flag s t \<Longrightarrow> t = s\<lparr>isRefetching := isRefetching t\<rparr>"
proof -
  assume "same_but_flag s t"
  then have "t\<lparr>isRefetching := False\<rparr> = s\<lparr>isRefetching := False\<rparr>"
    by (simp add: same_but_flag_def)
  then have "(t\<lparr>isRefetching := False\<rparr>)\<lparr>isRefetching := isRefetching t\<rparr>
             = (s\<lparr>isRefetching := False\<rparr>)\<lparr>isRefetching := isRefetching t\<rparr>"
    by (rule arg_cong)
  then show ?thesis by simp
qed

lemma same_but_flagI: "t = s\<lparr>isRefetching := b\<rparr> \<Longrightarrow> same_but_flag s t"
  by (simp add: same_but_flag_def)

lemma handler_same:
  assumes "same_but_flag s t"
  shows "same_but_flag (handler env ev s) (handler env ev t)"
proof -
  obtain b where t: "t = s\<lparr>isRefetching := b\<rparr>"
    using same_but_flagD [OF assms] by blast
  show ?thesis
    unfolding t
    by (cases ev)
       (simp_all add: same_but_flag_def on_mutated_def on_refetching_def on_resolved_def
          on_error_def commit_def record_call_def Let_def split: option.splits)
qed

lemma deliver_same:
  "same_but_flag s t \<Longrightarrow> same_but_flag (deliver env k ev hs s) (deliver env k ev hs t)"
  by (induction hs arbitrary: s t) (simp_all add: handler_same)

lemma dispatch_same:
  assumes "same_but_flag s t"
  shows "same_but_flag (dispatch env kev s) (dispatch env kev t)"
proof -
  have "listeners t = listeners s"
    using same_but_flagD [OF assms] by (metis resource.select_convs(12) resource.surjective
      resource.update_convs(2))
  then show ?thesis
    using assms by (simp add: dispatch_def deliver_same)
qed

lemma react_same:
  "same_but_flag s t \<Longrightarrow> same_but_flag (react env kevs s) (react env kevs t)"
  by (induction kevs arbitrary: s t) (simp_all add: dispatch_same)

lemma effect_subscribes:
  assumes "list_all (\<lambda>h. h \<in> set (subscription_set s)) (listeners s)"
    and "listeners s = [] \<or> cleanupRegistered s"
    and "truthy (currentKey s)"
  shows "listeners (effect env sub s) =
           [CacheListener (nextListener s) (key_string (currentKey s)) OnMutated,
            CacheListener (nextListener s + 1) (key_string (currentKey s)) OnRefetching,
            CacheListener (nextListener s + 2) (key_string (currentKey s)) OnResolved,
            CacheListener (nextListener s + 3) (key_string (currentKey s)) OnError]
           @ (if refetchOnFocus env \<and> hasWindow env
              then [WindowListener (nextListener s + 4) Focus] else [])
           @ (if refetchOnConnect env \<and> hasWindow env
              then [WindowListener
                      (if refetchOnFocus env \<and> hasWindow env then nextListener s + 5
                       else nextListener s + 4) Online]
              else [])"
proof -
  have "listeners (run_cleanup s) = []"
    using assms(1,2) by (rule run_cleanup_clears)
  then show ?thesis
    using assms(3) by (simp add: effect_def effect_body_listeners subscribe_all_listeners)
qed

lemma effect_subscribed:
  assumes "list_all (\<lambda>h. h \<in> set (subscription_set s)) (listeners s)"
    and "listeners s = [] \<or> cleanupRegistered s"
    and "truthy (currentKey s)"
  shows "subscribed (key_string (currentKey s)) n (effect env sub s)"
  using effect_subscribes [OF assms, of env sub]
  by (cases n) (simp_all add: subscribed_def)

text \<open>The focus handler.\<close>

lemma fire_focus_filter:
  "fire_focus env now stamp qa hs s =
     fire_focus env now stamp qa (filter (listens_window Focus) hs) s"
  by (induction hs arbitrary: s) simp_all

lemma window_focus_single:
  assumes "filter (listens_window Focus) (listeners s) = [h]"
  shows "window_focus env now stamp qa s =
           (if now - lastFocus s > focusInterval env
            then snd (localRefetch env qa (s\<lparr>lastFocus := stamp\<rparr>)) else s)"
proof -
  have "listens_window Focus h"
    using assms by (metis filter_eq_ConsD)
  then show ?thesis
    using assms fire_focus_filter [of env now stamp qa "listeners s" s]
    by (simp add: window_focus_def rawHandler_def refetch_listener_def Let_def)
qed

lemma window_focus_none:
  assumes "filter (listens_window Focus) (listeners s) = []"
  shows "window_focus env now stamp qa s = s"
  using assms fire_focus_filter [of env now stamp qa "listeners s" s]
  by (simp add: window_focus_def)

lemma queries_localRefetch:
  "queries (snd (localRefetch env qa s)) = (if truthy (currentKey s) then queries s + 1 else queries s)"
  by (simp add: queries_def localRefetch_calls)

lemma queries_update [simp]: "queries (s\<lparr>lastFocus := n\<rparr>) = queries s"
  by (simp add: queries_def)

lemma window_focus_lastFocus:
  assumes "filter (listens_window Focus) (listeners s) = [h]"
  shows "lastFocus (window_focus env now stamp qa s) =
           (if now - lastFocus s > focusInterval env then stamp else lastFocus s)"
  using assms by (simp add: window_focus_single)

lemma window_focus_queries:
  assumes "filter (listens_window Focus) (listeners s) = [h]" and "truthy (currentKey s)"
  shows "queries (window_focus env now stamp qa s) =
           (if now - lastFocus s > focusInterval env then queries s + 1 else queries s)"
  using assms by (simp add: window_focus_single queries_localRefetch)

lemma window_focus_keeps:
  "listeners (window_focus env now stamp qa s) = listeners s"
  "currentKey (window_focus env now stamp qa s) = currentKey s"
  by (simp_all add: window_focus_def)





subsection \<open>A resource just created\<close>

lemma update_same:
  assumes "same_but_flag s t"
  shows "same_but_flag (s\<lparr>loading := x\<rparr>) (t\<lparr>loading := x\<rparr>)"
    and "same_but_flag (record_call c s) (record_call c t)"
proof -
  obtain b where t: "t = s\<lparr>isRefetching := b\<rparr>"
    using same_but_flagD [OF assms] by blast
  show "same_but_flag (s\<lparr>loading := x\<rparr>) (t\<lparr>loading := x\<rparr>)"
    and "same_but_flag (record_call c s) (record_call c t)"
    unfolding t by (simp_all add: same_but_flag_def record_call_def)
qed

lemma resource_load_same:
  "same_but_flag (resource_load env qa (s\<lparr>currentKey := k\<rparr>))
                 (resource_load env qa (s\<lparr>isRefetching := b, currentKey := k\<rparr>))"
proof -
  let ?s = "s\<lparr>currentKey := k\<rparr>" and ?t = "s\<lparr>isRefetching := b, currentKey := k\<rparr>"
  have st: "same_but_flag ?s ?t"
    by (simp add: same_but_flag_def)
  have q: "same_but_flag (snd (query env k' True qa ?s)) (snd (query env k' True qa ?t))" for k'
    by (simp add: query_def cache_call_def react_same update_same [OF st])
  show ?thesis
    using st q update_same(1) [OF q]
    by (simp add: resource_load_def split_beta split: sum.splits)
qed

lemma run_cleanup_flag:
  "run_cleanup (s\<lparr>isRefetching := b\<rparr>) = (run_cleanup s)\<lparr>isRefetching := b\<rparr>"
proof -
  have i: "invoke h (t\<lparr>isRefetching := b\<rparr>) = (invoke h t)\<lparr>isRefetching := b\<rparr>" for h t
    by (cases h) (simp_all add: record_call_def)
  have "localUnsubscribe (s\<lparr>isRefetching := b\<rparr>) = (localUnsubscribe s)\<lparr>isRefetching := b\<rparr>"
    by (simp add: localUnsubscribe_def Let_def i)
  then show ?thesis
    by (simp add: run_cleanup_def)
qed

lemma effect_same:
  assumes "same_but_flag s t"
  shows "effect env sub t = effect env sub s"
proof -
  obtain b where t: "t = s\<lparr>isRefetching := b\<rparr>"
    using same_but_flagD [OF assms] by blast
  show ?thesis
    unfolding t by (simp add: effect_def run_cleanup_flag effect_body_def Let_def)
qed

lemma key_evaluated_flag:
  assumes "keyMemo r \<noteq> currentKey s"
  shows "key_evaluated env r qa sub (s\<lparr>isRefetching := b\<rparr>) = key_evaluated env r qa sub s"
proof -
  have "effect env sub (resource_load env qa (s\<lparr>isRefetching := b, currentKey := keyMemo r\<rparr>))
        = effect env sub (resource_load env qa (s\<lparr>currentKey := keyMemo r\<rparr>))"
    by (rule effect_same) (rule resource_load_same)
  then show ?thesis
    using assms by (simp add: key_evaluated_def)
qed

lemma created_frame [simp]:
  "currentKey (createTurboResource env now r qa sub) = keyMemo r"
  "lastFocus (createTurboResource env now r qa sub) = now"
  "cleanupRegistered (createTurboResource env now r qa sub) = truthy (keyMemo r)"
  by (simp_all add: createTurboResource_def) (simp_all add: blank_def)

lemma created_loading:
  "loading (createTurboResource env now r qa sub) =
     (if is_string (keyMemo r) then (case returned qa of Inl e \<Rightarrow> False | Inr p \<Rightarrow> True)
      else False)"
  by (simp add: createTurboResource_def resource_load_loading blank_def split: sum.splits)

lemma created_listeners:
  assumes "truthy (keyMemo r)"
  shows "listeners (createTurboResource env now r qa sub) =
           [CacheListener 0 (key_string (keyMemo r)) OnMutated,
            CacheListener 1 (key_string (keyMemo r)) OnRefetching,
            CacheListener 2 (key_string (keyMemo r)) OnResolved,
            CacheListener 3 (key_string (keyMemo r)) OnError]
           @ (if refetchOnFocus env \<and> hasWindow env then [WindowListener 4 Focus] else [])
           @ (if refetchOnConnect env \<and> hasWindow env
              then [WindowListener (if refetchOnFocus env \<and> hasWindow env then 5 else 4) Online]
              else [])"
proof -
  let ?b = "resource_load env qa (blank now (keyMemo r))"
  have b: "listeners ?b = []" "nextListener ?b = 0" "currentKey ?b = keyMemo r"
    by (simp_all add: blank_def)
  have "list_all (\<lambda>h. h \<in> set (subscription_set ?b)) (listeners ?b)"
    and "listeners ?b = [] \<or> cleanupRegistered ?b"
    using b by simp_all
  from effect_subscribes [OF this, of env sub] assms b show ?thesis
    by (simp add: createTurboResource_def)
qed

lemma created_queries:
  "queries (createTurboResource env now r qa sub) = (if is_string (keyMemo r) then 1 else 0)"
  by (simp add: queries_def createTurboResource_def effect_calls resource_load_calls
        filter_teardown_calls filter_setup_calls)
     (simp add: blank_def)

lemma effect_subscribed_any:
  "truthy (currentKey s) \<Longrightarrow> subscribed (key_string (currentKey s)) n (effect env sub s)"
  by (cases n)
     (simp_all add: subscribed_def effect_def effect_body_listeners subscribe_all_listeners)

lemma teardown_calls_load [simp]:
  "teardown_calls (resource_load env qa (s\<lparr>currentKey := k\<rparr>)) = teardown_calls s"
  by (simp add: teardown_calls_def subscription_set_def)

lemma created_set:
  assumes "truthy (keyMemo r)"
  shows "subscription_set (createTurboResource env now r qa sub) =
           [CacheListener 0 (key_string (keyMemo r)) OnMutated,
            CacheListener 1 (key_string (keyMemo r)) OnRefetching,
            (if refetchOnFocus env \<and> hasWindow env then WindowListener 4 Focus
             else EmptyFunction),
            (if refetchOnConnect env \<and> hasWindow env
             then WindowListener (if refetchOnFocus env \<and> hasWindow env then 5 else 4) Online
             else EmptyFunction),
            CacheListener 2 (key_string (keyMemo r)) OnResolved,
            CacheListener 3 (key_string (keyMemo r)) OnError]"
  using assms
  by (simp add: createTurboResource_def effect_def effect_body_set subscribe_all_set)
     (simp add: blank_def)

lemma no_options [simp]:
  "refetchOnFocus \<lparr>options = None, contextOptions = None, startTransition = st, hasWindow = w\<rparr>"
  "refetchOnConnect \<lparr>options = None, contextOptions = None, startTransition = st, hasWindow = w\<rparr>"
  "focusInterval \<lparr>options = None, contextOptions = None, startTransition = st, hasWindow = w\<rparr> = 5000"
  "transition \<lparr>options = None, contextOptions = None, startTransition = st, hasWindow = w\<rparr> = Some st"
  "spread_stale d \<lparr>options = None, contextOptions = None, startTransition = st, hasWindow = w\<rparr> = Some d"
  by (simp_all add: refetchOnFocus_def refetchOnConnect_def focusInterval_def transition_def
        spread_stale_def)

lemma localUnsubscribe_clears:
  assumes "one_subscription_set s"
  shows "listeners (localUnsubscribe s) = []"
  using one_subscription_set_weak(1) [OF assms]
  by (auto simp: localUnsubscribe_listeners list_all_iff filter_empty_conv)

lemma key_change_flag:
  assumes "keyMemo r \<noteq> currentKey s"
  shows "\<not> truthy (keyMemo r) \<Longrightarrow> \<not> isRefetching (key_evaluated env r qa sub s)"
    and "sub OnMutated = [] \<Longrightarrow> sub OnRefetching = [] \<Longrightarrow> sub OnResolved = [] \<Longrightarrow>
         sub OnError = [] \<Longrightarrow> \<not> isRefetching (key_evaluated env r qa sub s)"
    and "truthy (keyMemo r) \<Longrightarrow>
         sub OnRefetching = [(key_string (keyMemo r), RefetchingEvent p)] \<Longrightarrow>
         sub OnResolved = [] \<Longrightarrow> sub OnError = [] \<Longrightarrow>
         isRefetching (key_evaluated env r qa sub s)"
    and "truthy (keyMemo r) \<Longrightarrow>
         subscribed (key_string (keyMemo r)) n (key_evaluated env r qa sub s)"
proof -
  let ?t = "resource_load env qa (s\<lparr>currentKey := keyMemo r\<rparr>)"
  have ke: "key_evaluated env r qa sub s = effect env sub ?t"
    using assms by (simp add: key_evaluated_def)
  show "\<not> truthy (keyMemo r) \<Longrightarrow> \<not> isRefetching (key_evaluated env r qa sub s)"
    unfolding ke by (simp add: effect_not_truthy)
  show "sub OnMutated = [] \<Longrightarrow> sub OnRefetching = [] \<Longrightarrow> sub OnResolved = [] \<Longrightarrow>
         sub OnError = [] \<Longrightarrow> \<not> isRefetching (key_evaluated env r qa sub s)"
    unfolding ke by (simp add: effect_silent)
  show "truthy (keyMemo r) \<Longrightarrow>
         sub OnRefetching = [(key_string (keyMemo r), RefetchingEvent p)] \<Longrightarrow>
         sub OnResolved = [] \<Longrightarrow> sub OnError = [] \<Longrightarrow>
         isRefetching (key_evaluated env r qa sub s)"
    unfolding ke by (simp add: effect_def effect_body_def Let_def subscribe_all_replay)
  show "truthy (keyMemo r) \<Longrightarrow>
         subscribed (key_string (keyMemo r)) n (key_evaluated env r qa sub s)"
    unfolding ke using effect_subscribed_any [of ?t n env sub] by simp
qed

lemma created_flag:
  shows "\<not> truthy (keyMemo r) \<Longrightarrow> \<not> isRefetching (createTurboResource env now r qa sub)"
    and "sub OnMutated = [] \<Longrightarrow> sub OnRefetching = [] \<Longrightarrow> sub OnResolved = [] \<Longrightarrow>
         sub OnError = [] \<Longrightarrow> \<not> isRefetching (createTurboResource env now r qa sub)"
    and "truthy (keyMemo r) \<Longrightarrow>
         sub OnRefetching = [(key_string (keyMemo r), RefetchingEvent p)] \<Longrightarrow>
         sub OnResolved = [] \<Longrightarrow> sub OnError = [] \<Longrightarrow>
         isRefetching (createTurboResource env now r qa sub)"
proof -
  let ?t = "resource_load env qa (blank now (keyMemo r))"
  have k: "currentKey ?t = keyMemo r"
    by (simp add: blank_def)
  show "\<not> truthy (keyMemo r) \<Longrightarrow> \<not> isRefetching (createTurboResource env now r qa sub)"
    using k by (simp add: createTurboResource_def effect_not_truthy)
  show "sub OnMutated = [] \<Longrightarrow> sub OnRefetching = [] \<Longrightarrow> sub OnResolved = [] \<Longrightarrow>
         sub OnError = [] \<Longrightarrow> \<not> isRefetching (createTurboResource env now r qa sub)"
    by (simp add: createTurboResource_def effect_silent)
  show "truthy (keyMemo r) \<Longrightarrow>
         sub OnRefetching = [(key_string (keyMemo r), RefetchingEvent p)] \<Longrightarrow>
         sub OnResolved = [] \<Longrightarrow> sub OnError = [] \<Longrightarrow>
         isRefetching (createTurboResource env now r qa sub)"
    using k
    by (simp add: createTurboResource_def effect_def effect_body_def Let_def
          subscribe_all_replay)
qed

lemma step_keeps_listeners:
  "\<not> tears_down i \<Longrightarrow> listeners (step env i s) = listeners s"
  by (cases i) (simp_all add: window_focus_def window_online_def)

lemma localRefetch_silent:
  "query_reaction qa = [] \<Longrightarrow> isRefetching (snd (localRefetch env qa s)) = isRefetching s"
proof (cases "truthy (currentKey s)")
  case True
  then show "query_reaction qa = [] \<Longrightarrow> ?thesis"
    by (rule localRefetch_flag(2))
next
  case False
  then show ?thesis by (simp add: localRefetch_def)
qed

section \<open>The claims\<close>

text \<open>
  In the closed examples below the resource is created at time 0 with the key \<open>''A''\<close>, no
  options and no context, in a browser (\<open>hasWindow\<close>); values are natural numbers, errors
  and transition functions are named by strings.
\<close>

subsection \<open>The Transition Adapter\<close>

text \<open>
  C1, as the code has it. A function given as \<open>transition\<close> is used as it is, \<open>true\<close>
  resolves to the host's \<open>startTransition\<close>, and \<open>false\<close> resolves to no transition, so
  that a commit is the direct call of the cell's action. An absent option (no options at
  all, or options without \<open>transition\<close>, and nothing in the context) resolves to the host's
  \<open>startTransition\<close> as well: line 174 of the source returns it for \<open>undefined\<close>, and a
  commit then goes through that function.
\<close>

theorem transition_resolution:
  "getTransition st (TFunction f) = Some f
   \<and> getTransition st (TBoolean True) = Some st
   \<and> getTransition st (TBoolean False) = None
   \<and> getTransition st TUndefined = Some st
   \<and> transition (env\<lparr>options := Some (opts\<lparr>opt_transition := TFunction f\<rparr>)\<rparr>) = Some f
   \<and> transition (env\<lparr>options := Some (opts\<lparr>opt_transition := TBoolean True\<rparr>)\<rparr>)
       = Some (startTransition env)
   \<and> transition (env\<lparr>options := Some (opts\<lparr>opt_transition := TBoolean False\<rparr>)\<rparr>) = None
   \<and> transition (env\<lparr>options := None, contextOptions := None\<rparr>) = Some (startTransition env)
   \<and> transition (env\<lparr>options := Some (opts\<lparr>opt_transition := TUndefined\<rparr>),
                      contextOptions := None\<rparr>) = Some (startTransition env)
   \<and> commit (env\<lparr>options := Some (opts\<lparr>opt_transition := TBoolean False\<rparr>)\<rparr>) a s
       = record_call (Direct a) s
   \<and> commit (env\<lparr>options := Some (opts\<lparr>opt_transition := TFunction f\<rparr>)\<rparr>) a s
       = record_call (ViaTransition f a) s
   \<and> commit (env\<lparr>options := Some (opts\<lparr>opt_transition := TBoolean True\<rparr>)\<rparr>) a s
       = record_call (ViaTransition (startTransition env) a) s
   \<and> commit (env\<lparr>options := None, contextOptions := None\<rparr>) a s
       = record_call (ViaTransition (startTransition env) a) s"
  by (simp add: transition_def commit_def)

text \<open>
  The claim as stated fails for the absent option: with no options and no context the
  resolved transition is not "none".
\<close>

theorem absent_transition_counterexample:
  "transition \<lparr>options = None, contextOptions = None,
               startTransition = ''startTransition'', hasWindow = True\<rparr>
     \<noteq> None"
  by (simp add: transition_def)

theorem transition_resolution_witness:
  "transition (\<lparr>options = None, contextOptions = None, startTransition = ''startTransition'', hasWindow = True\<rparr>\<lparr>options := Some (\<lparr>opt_transition = TUndefined, opt_refetchOnFocus = None,
        opt_refetchOnConnect = None, opt_focusInterval = None, opt_stale = Absent\<rparr>
        \<lparr>opt_transition := TBoolean False\<rparr>)\<rparr>) = None
   \<and> transition (\<lparr>options = None, contextOptions = None, startTransition = ''startTransition'', hasWindow = True\<rparr>\<lparr>options := None, contextOptions := None\<rparr>) = Some ''startTransition''
   \<and> commit (\<lparr>options = None, contextOptions = None, startTransition = ''startTransition'', hasWindow = True\<rparr>\<lparr>options := None, contextOptions := None\<rparr>) (ActionsMutate (7 :: nat))
        (blank 0 KNull :: (nat, string, string) resource)
       = record_call (ViaTransition ''startTransition'' (ActionsMutate 7)) (blank 0 KNull)"
  using transition_resolution [where st = "''startTransition''" and f = "''mine''"
      and env = "\<lparr>options = None, contextOptions = None, startTransition = ''startTransition'', hasWindow = True\<rparr>"
      and opts = "\<lparr>opt_transition = TUndefined, opt_refetchOnFocus = None,
        opt_refetchOnConnect = None, opt_focusInterval = None, opt_stale = Absent\<rparr>"
      and a = "ActionsMutate (7 :: nat)"
      and s = "blank 0 KNull :: (nat, string, string) resource"]
  by simp

subsection \<open>The Key Resolver\<close>

text \<open>
  C2, as the code has it. When the accessor throws, the memoized key is \<open>null\<close>. When it
  returns \<open>false\<close> or \<open>undefined\<close>, the memoized key is that value itself, not \<open>null\<close>;
  it is not an active key either. In all three cases the evaluation causes no operation
  of the cache: no load is started, and the only calls are the invocations of the
  handles of the Subscription Set of the key that was active before, when the key
  changed. A resource created with such an accessor makes no call at all.
\<close>

theorem key_resolution:
  assumes "r = Threw e \<or> r = Returned KFalse \<or> r = Returned KUndefined"
  shows "keyMemo (Threw e) = KNull
         \<and> keyMemo (Returned KFalse) = KFalse
         \<and> keyMemo (Returned KUndefined) = KUndefined
         \<and> \<not> truthy (keyMemo r)
         \<and> calls (key_evaluated env r qa sub s) =
             calls s @ (if keyMemo r = currentKey s then [] else teardown_calls s)
         \<and> filter cache_operation (calls (key_evaluated env r qa sub s)) =
             filter cache_operation (calls s)
         \<and> calls (createTurboResource env now r qa sub) = []"
proof -
  have ns: "\<not> is_string (keyMemo r)" and nt: "\<not> truthy (keyMemo r)"
    using assms by auto
  have c: "calls (key_evaluated env r qa sub s) =
             calls s @ (if keyMemo r = currentKey s then [] else teardown_calls s)"
    using ns nt
    by (simp add: key_evaluated_def Let_def effect_not_truthy resource_load_not_string
          teardown_calls_def)
  have "calls (createTurboResource env now r qa sub) = []"
    using ns nt
    by (simp add: createTurboResource_def effect_not_truthy resource_load_not_string
          blank_def teardown_calls_def)
  then show ?thesis
    using nt c by (simp add: filter_teardown_calls)
qed

text \<open>The claim as stated fails for an accessor that returns \<open>false\<close>: the key is \<open>false\<close>.\<close>

theorem keyMemo_false_counterexample:
  "keyMemo (Returned KFalse :: string key_outcome) \<noteq> KNull"
  by simp

theorem key_resolution_witness:
  "keyMemo (Threw ''not ready'') = KNull
   \<and> keyMemo (Returned KFalse :: string key_outcome) = KFalse
   \<and> \<not> truthy (keyMemo (Returned KFalse :: string key_outcome))
   \<and> calls (key_evaluated \<lparr>options = None, contextOptions = None, startTransition = ''startTransition'', hasWindow = True\<rparr> (Returned KFalse) \<lparr>returned = Inr (Promise 0 Pending), query_reaction = []\<rparr> (\<lambda>n. []) (createTurboResource \<lparr>options = None, contextOptions = None, startTransition = ''startTransition'', hasWindow = True\<rparr> 0 (Returned (KString ''A'')) \<lparr>returned = Inr (Promise 0 Pending), query_reaction = []\<rparr> (\<lambda>n. []) :: (nat, string, string) resource)) =
       calls (createTurboResource \<lparr>options = None, contextOptions = None, startTransition = ''startTransition'', hasWindow = True\<rparr> 0 (Returned (KString ''A'')) \<lparr>returned = Inr (Promise 0 Pending), query_reaction = []\<rparr> (\<lambda>n. []) :: (nat, string, string) resource)
       @ map Invoke [CacheListener 0 ''A'' OnMutated, CacheListener 1 ''A'' OnRefetching,
           WindowListener 4 Focus, WindowListener 5 Online,
           CacheListener 2 ''A'' OnResolved, CacheListener 3 ''A'' OnError]
   \<and> filter cache_operation (calls (key_evaluated \<lparr>options = None, contextOptions = None, startTransition = ''startTransition'', hasWindow = True\<rparr> (Threw ''not ready'') \<lparr>returned = Inr (Promise 0 Pending), query_reaction = []\<rparr> (\<lambda>n. []) (createTurboResource \<lparr>options = None, contextOptions = None, startTransition = ''startTransition'', hasWindow = True\<rparr> 0 (Returned (KString ''A'')) \<lparr>returned = Inr (Promise 0 Pending), query_reaction = []\<rparr> (\<lambda>n. []) :: (nat, string, string) resource))) =
       filter cache_operation (calls (createTurboResource \<lparr>options = None, contextOptions = None, startTransition = ''startTransition'', hasWindow = True\<rparr> 0 (Returned (KString ''A'')) \<lparr>returned = Inr (Promise 0 Pending), query_reaction = []\<rparr> (\<lambda>n. []) :: (nat, string, string) resource))
   \<and> calls (createTurboResource \<lparr>options = None, contextOptions = None, startTransition = ''startTransition'', hasWindow = True\<rparr> 0 (Threw ''not ready'') \<lparr>returned = Inr (Promise 0 Pending), query_reaction = []\<rparr> (\<lambda>n. [])
              :: (nat, string, string) resource) = []"
  using key_resolution [where r = "Returned KFalse" and e = "''not ready''" and env = "\<lparr>options = None, contextOptions = None, startTransition = ''startTransition'', hasWindow = True\<rparr>"
      and qa = "\<lparr>returned = Inr (Promise 0 Pending), query_reaction = []\<rparr>" and s = "(createTurboResource \<lparr>options = None, contextOptions = None, startTransition = ''startTransition'', hasWindow = True\<rparr> 0 (Returned (KString ''A'')) \<lparr>returned = Inr (Promise 0 Pending), query_reaction = []\<rparr> (\<lambda>n. []) :: (nat, string, string) resource)" and now = 0]
    key_resolution [where r = "Threw ''not ready''" and e = "''not ready''" and env = "\<lparr>options = None, contextOptions = None, startTransition = ''startTransition'', hasWindow = True\<rparr>"
      and qa = "\<lparr>returned = Inr (Promise 0 Pending), query_reaction = []\<rparr>" and s = "(createTurboResource \<lparr>options = None, contextOptions = None, startTransition = ''startTransition'', hasWindow = True\<rparr> 0 (Returned (KString ''A'')) \<lparr>returned = Inr (Promise 0 Pending), query_reaction = []\<rparr> (\<lambda>n. []) :: (nat, string, string) resource)" and now = 0]
  by (simp add: teardown_calls_def created_set)

subsection \<open>The focus trigger\<close>

text \<open>
  C3, as the code has it. Let the focus handler be registered (once) and a key be active,
  and let two raw focus events follow each other; \<open>now\<close> is the time an event's handler
  reads first and \<open>stamp\<close> the time it reads when it records the timestamp. An event is
  accepted exactly when its time exceeds the Last-Focus Timestamp by more than
  \<open>focusInterval\<close>: then the timestamp becomes \<open>stamp\<close> and \<open>refetch()\<close> runs, which is one
  more \<open>query\<close>; otherwise the state stays as it is, timestamp included. The timestamp is
  the time of creation until the first event is accepted (line 262); the source has no
  state "no timestamp yet". The handler stays registered, so the same holds for the next
  event. Two events within the interval of each other give at most one refetch. Two
  events of which the second is more than the interval after the first one's timestamp
  give two refetches when the first is accepted; when the first is dropped, the second
  alone is accepted if it is more than the interval after the old timestamp, and none
  otherwise.
\<close>

theorem focus_throttle:
  assumes "filter (listens_window Focus) (listeners s) = [h]" and "truthy (currentKey s)"
    and "s1 = window_focus env now1 stamp1 qa1 s"
    and "s2 = window_focus env now2 stamp2 qa2 s1"
  shows "(if now1 - lastFocus s > focusInterval env
          then lastFocus s1 = stamp1 \<and> queries s1 = queries s + 1
          else s1 = s)
         \<and> filter (listens_window Focus) (listeners s1) = [h] \<and> truthy (currentKey s1)
         \<and> (now1 \<le> stamp1 \<and> now2 - now1 \<le> focusInterval env \<longrightarrow> queries s2 \<le> queries s + 1)
         \<and> (now1 - lastFocus s > focusInterval env \<and> now2 - stamp1 > focusInterval env \<longrightarrow>
              queries s2 = queries s + 2)
         \<and> (\<not> now1 - lastFocus s > focusInterval env \<and> now2 - lastFocus s > focusInterval env \<longrightarrow>
              queries s2 = queries s + 1)
         \<and> (\<not> now1 - lastFocus s > focusInterval env \<and> \<not> now2 - lastFocus s > focusInterval env \<longrightarrow>
              s2 = s)
         \<and> lastFocus (createTurboResource env created r qa sub) = created"
proof -
  have l1: "filter (listens_window Focus) (listeners s1) = [h]" and k1: "truthy (currentKey s1)"
    using assms(1,2) by (simp_all add: assms(3) window_focus_keeps)
  have first: "if now1 - lastFocus s > focusInterval env
          then lastFocus s1 = stamp1 \<and> queries s1 = queries s + 1
          else s1 = s"
  proof (cases "now1 - lastFocus s > focusInterval env")
    case True
    then show ?thesis
      using window_focus_lastFocus [OF assms(1), of env now1 stamp1 qa1]
        window_focus_queries [OF assms(1,2), of env now1 stamp1 qa1]
      by (simp add: assms(3))
  next
    case False
    then show ?thesis
      using window_focus_single [OF assms(1), of env now1 stamp1 qa1]
      by (simp add: assms(3))
  qed
  have q2: "queries s2 =
      (if now2 - lastFocus s1 > focusInterval env then queries s1 + 1 else queries s1)"
    unfolding assms(4) by (rule window_focus_queries [OF l1 k1])
  have e2: "\<not> now2 - lastFocus s1 > focusInterval env \<longrightarrow> s2 = s1"
    unfolding assms(4) by (simp add: window_focus_single [OF l1])
  show ?thesis
  proof (cases "now1 - lastFocus s > focusInterval env")
    case True
    then have "lastFocus s1 = stamp1" "queries s1 = queries s + 1"
      using first by simp_all
    then show ?thesis
      using True l1 k1 q2 by auto
  next
    case False
    then have "s1 = s" using first by simp
    then show ?thesis
      using False l1 k1 q2 e2 by auto
  qed
qed

text \<open>
  The claim as stated fails for a first event soon after creation: created at 0, focus
  events at 1000 and at 6500 are 5500 ms apart, more than the interval of 5000 ms, and
  yet only the second one refetches.
\<close>

theorem focus_first_event_counterexample:
  "(6500 :: int) - 1000 > focusInterval \<lparr>options = None, contextOptions = None, startTransition = ''startTransition'', hasWindow = True\<rparr>
   \<and> queries (window_focus \<lparr>options = None, contextOptions = None, startTransition = ''startTransition'', hasWindow = True\<rparr> 6500 6500 \<lparr>returned = Inr (Promise 0 Pending), query_reaction = []\<rparr> (window_focus \<lparr>options = None, contextOptions = None, startTransition = ''startTransition'', hasWindow = True\<rparr> 1000 1000 \<lparr>returned = Inr (Promise 0 Pending), query_reaction = []\<rparr> (createTurboResource \<lparr>options = None, contextOptions = None, startTransition = ''startTransition'', hasWindow = True\<rparr> 0 (Returned (KString ''A'')) \<lparr>returned = Inr (Promise 0 Pending), query_reaction = []\<rparr> (\<lambda>n. []) :: (nat, string, string) resource)))
       = queries (createTurboResource \<lparr>options = None, contextOptions = None, startTransition = ''startTransition'', hasWindow = True\<rparr> 0 (Returned (KString ''A'')) \<lparr>returned = Inr (Promise 0 Pending), query_reaction = []\<rparr> (\<lambda>n. []) :: (nat, string, string) resource) + 1"
proof -
  let ?s1 = "window_focus \<lparr>options = None, contextOptions = None, startTransition = ''startTransition'', hasWindow = True\<rparr> 1000 1000 \<lparr>returned = Inr (Promise 0 Pending), query_reaction = []\<rparr> (createTurboResource \<lparr>options = None, contextOptions = None, startTransition = ''startTransition'', hasWindow = True\<rparr> 0 (Returned (KString ''A'')) \<lparr>returned = Inr (Promise 0 Pending), query_reaction = []\<rparr> (\<lambda>n. []) :: (nat, string, string) resource)"
  have l0: "filter (listens_window Focus) (listeners (createTurboResource \<lparr>options = None, contextOptions = None, startTransition = ''startTransition'', hasWindow = True\<rparr> 0 (Returned (KString ''A'')) \<lparr>returned = Inr (Promise 0 Pending), query_reaction = []\<rparr> (\<lambda>n. []) :: (nat, string, string) resource)) = [WindowListener 4 Focus]"
    by (simp add: created_listeners)
  have s1: "?s1 = (createTurboResource \<lparr>options = None, contextOptions = None, startTransition = ''startTransition'', hasWindow = True\<rparr> 0 (Returned (KString ''A'')) \<lparr>returned = Inr (Promise 0 Pending), query_reaction = []\<rparr> (\<lambda>n. []) :: (nat, string, string) resource)"
    by (simp add: window_focus_single [OF l0])
  show ?thesis
    unfolding s1 by (simp add: window_focus_queries [OF l0])
qed

theorem focus_throttle_witness:
  "filter (listens_window Focus) (listeners (createTurboResource \<lparr>options = None, contextOptions = None, startTransition = ''startTransition'', hasWindow = True\<rparr> 0 (Returned (KString ''A'')) \<lparr>returned = Inr (Promise 0 Pending), query_reaction = []\<rparr> (\<lambda>n. []) :: (nat, string, string) resource)) = [WindowListener 4 Focus]
   \<and> truthy (currentKey (createTurboResource \<lparr>options = None, contextOptions = None, startTransition = ''startTransition'', hasWindow = True\<rparr> 0 (Returned (KString ''A'')) \<lparr>returned = Inr (Promise 0 Pending), query_reaction = []\<rparr> (\<lambda>n. []) :: (nat, string, string) resource))
   \<and> lastFocus (window_focus \<lparr>options = None, contextOptions = None, startTransition = ''startTransition'', hasWindow = True\<rparr> 6000 6001 \<lparr>returned = Inr (Promise 0 Pending), query_reaction = []\<rparr> (createTurboResource \<lparr>options = None, contextOptions = None, startTransition = ''startTransition'', hasWindow = True\<rparr> 0 (Returned (KString ''A'')) \<lparr>returned = Inr (Promise 0 Pending), query_reaction = []\<rparr> (\<lambda>n. []) :: (nat, string, string) resource)) = 6001
   \<and> queries (window_focus \<lparr>options = None, contextOptions = None, startTransition = ''startTransition'', hasWindow = True\<rparr> 6000 6001 \<lparr>returned = Inr (Promise 0 Pending), query_reaction = []\<rparr> (createTurboResource \<lparr>options = None, contextOptions = None, startTransition = ''startTransition'', hasWindow = True\<rparr> 0 (Returned (KString ''A'')) \<lparr>returned = Inr (Promise 0 Pending), query_reaction = []\<rparr> (\<lambda>n. []) :: (nat, string, string) resource)) = queries (createTurboResource \<lparr>options = None, contextOptions = None, startTransition = ''startTransition'', hasWindow = True\<rparr> 0 (Returned (KString ''A'')) \<lparr>returned = Inr (Promise 0 Pending), query_reaction = []\<rparr> (\<lambda>n. []) :: (nat, string, string) resource) + 1
   \<and> queries (window_focus \<lparr>options = None, contextOptions = None, startTransition = ''startTransition'', hasWindow = True\<rparr> 7000 7000 \<lparr>returned = Inr (Promise 0 Pending), query_reaction = []\<rparr> (window_focus \<lparr>options = None, contextOptions = None, startTransition = ''startTransition'', hasWindow = True\<rparr> 6000 6001 \<lparr>returned = Inr (Promise 0 Pending), query_reaction = []\<rparr> (createTurboResource \<lparr>options = None, contextOptions = None, startTransition = ''startTransition'', hasWindow = True\<rparr> 0 (Returned (KString ''A'')) \<lparr>returned = Inr (Promise 0 Pending), query_reaction = []\<rparr> (\<lambda>n. []) :: (nat, string, string) resource)))
       \<le> queries (createTurboResource \<lparr>options = None, contextOptions = None, startTransition = ''startTransition'', hasWindow = True\<rparr> 0 (Returned (KString ''A'')) \<lparr>returned = Inr (Promise 0 Pending), query_reaction = []\<rparr> (\<lambda>n. []) :: (nat, string, string) resource) + 1
   \<and> queries (window_focus \<lparr>options = None, contextOptions = None, startTransition = ''startTransition'', hasWindow = True\<rparr> 12000 12000 \<lparr>returned = Inr (Promise 0 Pending), query_reaction = []\<rparr> (window_focus \<lparr>options = None, contextOptions = None, startTransition = ''startTransition'', hasWindow = True\<rparr> 6000 6001 \<lparr>returned = Inr (Promise 0 Pending), query_reaction = []\<rparr> (createTurboResource \<lparr>options = None, contextOptions = None, startTransition = ''startTransition'', hasWindow = True\<rparr> 0 (Returned (KString ''A'')) \<lparr>returned = Inr (Promise 0 Pending), query_reaction = []\<rparr> (\<lambda>n. []) :: (nat, string, string) resource)))
       = queries (createTurboResource \<lparr>options = None, contextOptions = None, startTransition = ''startTransition'', hasWindow = True\<rparr> 0 (Returned (KString ''A'')) \<lparr>returned = Inr (Promise 0 Pending), query_reaction = []\<rparr> (\<lambda>n. []) :: (nat, string, string) resource) + 2
   \<and> window_focus \<lparr>options = None, contextOptions = None, startTransition = ''startTransition'', hasWindow = True\<rparr> 4000 4000 \<lparr>returned = Inr (Promise 0 Pending), query_reaction = []\<rparr> (createTurboResource \<lparr>options = None, contextOptions = None, startTransition = ''startTransition'', hasWindow = True\<rparr> 0 (Returned (KString ''A'')) \<lparr>returned = Inr (Promise 0 Pending), query_reaction = []\<rparr> (\<lambda>n. []) :: (nat, string, string) resource) = (createTurboResource \<lparr>options = None, contextOptions = None, startTransition = ''startTransition'', hasWindow = True\<rparr> 0 (Returned (KString ''A'')) \<lparr>returned = Inr (Promise 0 Pending), query_reaction = []\<rparr> (\<lambda>n. []) :: (nat, string, string) resource)"
  using focus_throttle [where s = "(createTurboResource \<lparr>options = None, contextOptions = None, startTransition = ''startTransition'', hasWindow = True\<rparr> 0 (Returned (KString ''A'')) \<lparr>returned = Inr (Promise 0 Pending), query_reaction = []\<rparr> (\<lambda>n. []) :: (nat, string, string) resource)" and h = "WindowListener 4 Focus" and env = "\<lparr>options = None, contextOptions = None, startTransition = ''startTransition'', hasWindow = True\<rparr>"
      and ?s1.0 = "window_focus \<lparr>options = None, contextOptions = None, startTransition = ''startTransition'', hasWindow = True\<rparr> 6000 6001 \<lparr>returned = Inr (Promise 0 Pending), query_reaction = []\<rparr> (createTurboResource \<lparr>options = None, contextOptions = None, startTransition = ''startTransition'', hasWindow = True\<rparr> 0 (Returned (KString ''A'')) \<lparr>returned = Inr (Promise 0 Pending), query_reaction = []\<rparr> (\<lambda>n. []) :: (nat, string, string) resource)"
      and ?now1.0 = 6000 and ?stamp1.0 = 6001 and ?qa1.0 = "\<lparr>returned = Inr (Promise 0 Pending), query_reaction = []\<rparr>"
      and ?s2.0 = "window_focus \<lparr>options = None, contextOptions = None, startTransition = ''startTransition'', hasWindow = True\<rparr> 7000 7000 \<lparr>returned = Inr (Promise 0 Pending), query_reaction = []\<rparr> (window_focus \<lparr>options = None, contextOptions = None, startTransition = ''startTransition'', hasWindow = True\<rparr> 6000 6001 \<lparr>returned = Inr (Promise 0 Pending), query_reaction = []\<rparr> (createTurboResource \<lparr>options = None, contextOptions = None, startTransition = ''startTransition'', hasWindow = True\<rparr> 0 (Returned (KString ''A'')) \<lparr>returned = Inr (Promise 0 Pending), query_reaction = []\<rparr> (\<lambda>n. []) :: (nat, string, string) resource))"
      and ?now2.0 = 7000 and ?stamp2.0 = 7000 and ?qa2.0 = "\<lparr>returned = Inr (Promise 0 Pending), query_reaction = []\<rparr>"]
    focus_throttle [where s = "(createTurboResource \<lparr>options = None, contextOptions = None, startTransition = ''startTransition'', hasWindow = True\<rparr> 0 (Returned (KString ''A'')) \<lparr>returned = Inr (Promise 0 Pending), query_reaction = []\<rparr> (\<lambda>n. []) :: (nat, string, string) resource)" and h = "WindowListener 4 Focus" and env = "\<lparr>options = None, contextOptions = None, startTransition = ''startTransition'', hasWindow = True\<rparr>"
      and ?s1.0 = "window_focus \<lparr>options = None, contextOptions = None, startTransition = ''startTransition'', hasWindow = True\<rparr> 6000 6001 \<lparr>returned = Inr (Promise 0 Pending), query_reaction = []\<rparr> (createTurboResource \<lparr>options = None, contextOptions = None, startTransition = ''startTransition'', hasWindow = True\<rparr> 0 (Returned (KString ''A'')) \<lparr>returned = Inr (Promise 0 Pending), query_reaction = []\<rparr> (\<lambda>n. []) :: (nat, string, string) resource)"
      and ?now1.0 = 6000 and ?stamp1.0 = 6001 and ?qa1.0 = "\<lparr>returned = Inr (Promise 0 Pending), query_reaction = []\<rparr>"
      and ?s2.0 = "window_focus \<lparr>options = None, contextOptions = None, startTransition = ''startTransition'', hasWindow = True\<rparr> 12000 12000 \<lparr>returned = Inr (Promise 0 Pending), query_reaction = []\<rparr> (window_focus \<lparr>options = None, contextOptions = None, startTransition = ''startTransition'', hasWindow = True\<rparr> 6000 6001 \<lparr>returned = Inr (Promise 0 Pending), query_reaction = []\<rparr> (createTurboResource \<lparr>options = None, contextOptions = None, startTransition = ''startTransition'', hasWindow = True\<rparr> 0 (Returned (KString ''A'')) \<lparr>returned = Inr (Promise 0 Pending), query_reaction = []\<rparr> (\<lambda>n. []) :: (nat, string, string) resource))"
      and ?now2.0 = 12000 and ?stamp2.0 = 12000 and ?qa2.0 = "\<lparr>returned = Inr (Promise 0 Pending), query_reaction = []\<rparr>"]
    focus_throttle [where s = "(createTurboResource \<lparr>options = None, contextOptions = None, startTransition = ''startTransition'', hasWindow = True\<rparr> 0 (Returned (KString ''A'')) \<lparr>returned = Inr (Promise 0 Pending), query_reaction = []\<rparr> (\<lambda>n. []) :: (nat, string, string) resource)" and h = "WindowListener 4 Focus" and env = "\<lparr>options = None, contextOptions = None, startTransition = ''startTransition'', hasWindow = True\<rparr>"
      and ?s1.0 = "window_focus \<lparr>options = None, contextOptions = None, startTransition = ''startTransition'', hasWindow = True\<rparr> 4000 4000 \<lparr>returned = Inr (Promise 0 Pending), query_reaction = []\<rparr> (createTurboResource \<lparr>options = None, contextOptions = None, startTransition = ''startTransition'', hasWindow = True\<rparr> 0 (Returned (KString ''A'')) \<lparr>returned = Inr (Promise 0 Pending), query_reaction = []\<rparr> (\<lambda>n. []) :: (nat, string, string) resource)"
      and ?now1.0 = 4000 and ?stamp1.0 = 4000 and ?qa1.0 = "\<lparr>returned = Inr (Promise 0 Pending), query_reaction = []\<rparr>"
      and ?s2.0 = "window_focus \<lparr>options = None, contextOptions = None, startTransition = ''startTransition'', hasWindow = True\<rparr> 4500 4500 \<lparr>returned = Inr (Promise 0 Pending), query_reaction = []\<rparr> (window_focus \<lparr>options = None, contextOptions = None, startTransition = ''startTransition'', hasWindow = True\<rparr> 4000 4000 \<lparr>returned = Inr (Promise 0 Pending), query_reaction = []\<rparr> (createTurboResource \<lparr>options = None, contextOptions = None, startTransition = ''startTransition'', hasWindow = True\<rparr> 0 (Returned (KString ''A'')) \<lparr>returned = Inr (Promise 0 Pending), query_reaction = []\<rparr> (\<lambda>n. []) :: (nat, string, string) resource))"
      and ?now2.0 = 4500 and ?stamp2.0 = 4500 and ?qa2.0 = "\<lparr>returned = Inr (Promise 0 Pending), query_reaction = []\<rparr>"]
  by (simp add: created_listeners)

subsection \<open>The Refetching Flag\<close>

text \<open>
  C4, as the code has it. On a change of the key the effect first sets \<open>isRefetching\<close>
  to false and then subscribes, so the state after the change does not depend on the
  flag before it. After the change the flag is false when the new key is not active, and
  when the cache dispatches nothing during the subscriptions; it is true when the cache
  dispatches \<open>refetching\<close> for the new key to the handler just registered (what a cache
  does that has a fetch of that key in flight) and nothing to the \<open>resolved\<close> and \<open>error\<close>
  handlers. The same holds for a resource just created. After the change the handlers of
  an active key are registered, and they stay registered under every input but a change
  of the key, \<open>unsubscribe()\<close> and disposal. An event of the cache changes the flag only
  through a registered handler: \<open>refetching\<close> makes it true exactly when it is true already
  or a handler is registered for the event's key, and \<open>resolved\<close> and \<open>error\<close> leave it true
  exactly when it was true and no handler is registered; \<open>mutated\<close> does not change it, and
  an event without a registered handler changes nothing at all. A local \<open>refetch()\<close>
  sets the flag through the \<open>refetching\<close> event that the cache dispatches during its
  query, and leaves it as it is when the cache dispatches nothing.
\<close>

theorem refetching_flag:
  "(keyMemo r \<noteq> currentKey s \<longrightarrow>
      key_evaluated env r qa sub (s\<lparr>isRefetching := b\<rparr>) = key_evaluated env r qa sub s)
   \<and> (keyMemo r \<noteq> currentKey s \<and> \<not> truthy (keyMemo r) \<longrightarrow>
        \<not> isRefetching (key_evaluated env r qa sub s))
   \<and> (keyMemo r \<noteq> currentKey s \<and> sub OnMutated = [] \<and> sub OnRefetching = []
        \<and> sub OnResolved = [] \<and> sub OnError = [] \<longrightarrow>
        \<not> isRefetching (key_evaluated env r qa sub s))
   \<and> (keyMemo r \<noteq> currentKey s \<and> truthy (keyMemo r)
        \<and> sub OnRefetching = [(key_string (keyMemo r), RefetchingEvent p)]
        \<and> sub OnResolved = [] \<and> sub OnError = [] \<longrightarrow>
        isRefetching (key_evaluated env r qa sub s))
   \<and> (keyMemo r \<noteq> currentKey s \<and> truthy (keyMemo r) \<longrightarrow>
        subscribed (key_string (keyMemo r)) n (key_evaluated env r qa sub s))
   \<and> (sub OnMutated = [] \<and> sub OnRefetching = [] \<and> sub OnResolved = [] \<and> sub OnError = [] \<longrightarrow>
        \<not> isRefetching (createTurboResource env now r qa sub))
   \<and> (truthy (keyMemo r) \<and> sub OnRefetching = [(key_string (keyMemo r), RefetchingEvent p)]
        \<and> sub OnResolved = [] \<and> sub OnError = [] \<longrightarrow>
        isRefetching (createTurboResource env now r qa sub))
   \<and> (\<not> tears_down i \<longrightarrow> listeners (step env i s) = listeners s)
   \<and> isRefetching (dispatch env (k, RefetchingEvent p) s) =
       (subscribed k OnRefetching s \<or> isRefetching s)
   \<and> isRefetching (dispatch env (k, ResolvedEvent) s) =
       (\<not> subscribed k OnResolved s \<and> isRefetching s)
   \<and> isRefetching (dispatch env (k, ErrorEvent) s) =
       (\<not> subscribed k OnError s \<and> isRefetching s)
   \<and> isRefetching (dispatch env (k, MutatedEvent v) s) = isRefetching s
   \<and> (\<not> subscribed k (name_of ev) s \<longrightarrow> dispatch env (k, ev) s = s)
   \<and> (truthy (currentKey s)
        \<and> query_reaction qa = [(key_string (currentKey s), RefetchingEvent p)] \<longrightarrow>
        isRefetching (snd (localRefetch env qa s)) =
          (subscribed (key_string (currentKey s)) OnRefetching s \<or> isRefetching s))
   \<and> (query_reaction qa = [] \<longrightarrow>
        isRefetching (snd (localRefetch env qa s)) = isRefetching s)"
proof -
  have change:
    "keyMemo r \<noteq> currentKey s \<longrightarrow>
      key_evaluated env r qa sub (s\<lparr>isRefetching := b\<rparr>) = key_evaluated env r qa sub s"
    "keyMemo r \<noteq> currentKey s \<and> \<not> truthy (keyMemo r) \<longrightarrow>
        \<not> isRefetching (key_evaluated env r qa sub s)"
    "keyMemo r \<noteq> currentKey s \<and> sub OnMutated = [] \<and> sub OnRefetching = []
        \<and> sub OnResolved = [] \<and> sub OnError = [] \<longrightarrow>
        \<not> isRefetching (key_evaluated env r qa sub s)"
    "keyMemo r \<noteq> currentKey s \<and> truthy (keyMemo r)
        \<and> sub OnRefetching = [(key_string (keyMemo r), RefetchingEvent p)]
        \<and> sub OnResolved = [] \<and> sub OnError = [] \<longrightarrow>
        isRefetching (key_evaluated env r qa sub s)"
    "keyMemo r \<noteq> currentKey s \<and> truthy (keyMemo r) \<longrightarrow>
        subscribed (key_string (keyMemo r)) n (key_evaluated env r qa sub s)"
    by (simp_all add: key_evaluated_flag key_change_flag)
  have created:
    "sub OnMutated = [] \<and> sub OnRefetching = [] \<and> sub OnResolved = [] \<and> sub OnError = [] \<longrightarrow>
        \<not> isRefetching (createTurboResource env now r qa sub)"
    "truthy (keyMemo r) \<and> sub OnRefetching = [(key_string (keyMemo r), RefetchingEvent p)]
        \<and> sub OnResolved = [] \<and> sub OnError = [] \<longrightarrow>
        isRefetching (createTurboResource env now r qa sub)"
    by (simp_all add: created_flag)
  have local:
    "truthy (currentKey s)
        \<and> query_reaction qa = [(key_string (currentKey s), RefetchingEvent p)] \<longrightarrow>
        isRefetching (snd (localRefetch env qa s)) =
          (subscribed (key_string (currentKey s)) OnRefetching s \<or> isRefetching s)"
    "query_reaction qa = [] \<longrightarrow>
        isRefetching (snd (localRefetch env qa s)) = isRefetching s"
    by (simp_all add: localRefetch_flag(1) localRefetch_silent)
  have events:
    "\<not> tears_down i \<longrightarrow> listeners (step env i s) = listeners s"
    "isRefetching (dispatch env (k, RefetchingEvent p) s) =
       (subscribed k OnRefetching s \<or> isRefetching s)"
    "isRefetching (dispatch env (k, ResolvedEvent) s) =
       (\<not> subscribed k OnResolved s \<and> isRefetching s)"
    "isRefetching (dispatch env (k, ErrorEvent) s) =
       (\<not> subscribed k OnError s \<and> isRefetching s)"
    "isRefetching (dispatch env (k, MutatedEvent v) s) = isRefetching s"
    "\<not> subscribed k (name_of ev) s \<longrightarrow> dispatch env (k, ev) s = s"
    by (simp_all add: step_keeps_listeners dispatch_flag dispatch_unheard)
  from change created events local show ?thesis
    by (intro conjI)
qed

text \<open>
  The claim as stated fails twice. The key changes from \<open>''A''\<close> to \<open>''B''\<close>, the load of
  \<open>''B''\<close> is in flight and the cache tells the new \<open>refetching\<close> handler so: the flag is
  true immediately after the change. And after \<open>unsubscribe()\<close> a \<open>resolved\<close> event of the
  current key no longer clears a flag that is true.
\<close>

theorem refetching_flag_counterexample:
  "isRefetching (key_evaluated \<lparr>options = None, contextOptions = None, startTransition = ''startTransition'', hasWindow = True\<rparr> (Returned (KString ''B'')) \<lparr>returned = Inr (Promise 7 Pending), query_reaction = [(''B'', RefetchingEvent (Promise 7 Pending))]\<rparr> (\<lambda>n. if n = OnRefetching then [(''B'', RefetchingEvent (Promise 7 Pending))] else []) (createTurboResource \<lparr>options = None, contextOptions = None, startTransition = ''startTransition'', hasWindow = True\<rparr> 0 (Returned (KString ''A'')) \<lparr>returned = Inr (Promise 0 Pending), query_reaction = []\<rparr> (\<lambda>n. []) :: (nat, string, string) resource))
   \<and> isRefetching (dispatch \<lparr>options = None, contextOptions = None, startTransition = ''startTransition'', hasWindow = True\<rparr> (''A'', ResolvedEvent)
        (localUnsubscribe (dispatch \<lparr>options = None, contextOptions = None, startTransition = ''startTransition'', hasWindow = True\<rparr> (''A'', RefetchingEvent (Promise 7 Pending)) (createTurboResource \<lparr>options = None, contextOptions = None, startTransition = ''startTransition'', hasWindow = True\<rparr> 0 (Returned (KString ''A'')) \<lparr>returned = Inr (Promise 0 Pending), query_reaction = []\<rparr> (\<lambda>n. []) :: (nat, string, string) resource))))"
proof -
  let ?x = "dispatch \<lparr>options = None, contextOptions = None, startTransition = ''startTransition'', hasWindow = True\<rparr> (''A'', RefetchingEvent (Promise 7 Pending)) (createTurboResource \<lparr>options = None, contextOptions = None, startTransition = ''startTransition'', hasWindow = True\<rparr> 0 (Returned (KString ''A'')) \<lparr>returned = Inr (Promise 0 Pending), query_reaction = []\<rparr> (\<lambda>n. []) :: (nat, string, string) resource)"
  have "isRefetching (key_evaluated \<lparr>options = None, contextOptions = None, startTransition = ''startTransition'', hasWindow = True\<rparr> (Returned (KString ''B'')) \<lparr>returned = Inr (Promise 7 Pending), query_reaction = [(''B'', RefetchingEvent (Promise 7 Pending))]\<rparr> (\<lambda>n. if n = OnRefetching then [(''B'', RefetchingEvent (Promise 7 Pending))] else []) (createTurboResource \<lparr>options = None, contextOptions = None, startTransition = ''startTransition'', hasWindow = True\<rparr> 0 (Returned (KString ''A'')) \<lparr>returned = Inr (Promise 0 Pending), query_reaction = []\<rparr> (\<lambda>n. []) :: (nat, string, string) resource))"
    by (rule key_change_flag(3)) simp_all
  moreover have x: "isRefetching ?x"
    by (simp add: dispatch_flag subscribed_def created_listeners)
  moreover have "one_subscription_set ?x"
    using reachable_one_subscription_set [of "\<lparr>options = None, contextOptions = None, startTransition = ''startTransition'', hasWindow = True\<rparr>" "[CacheDispatch ''A'' (RefetchingEvent (Promise 7 Pending))]"
        0 "Returned (KString ''A'')" "\<lparr>returned = Inr (Promise 0 Pending), query_reaction = []\<rparr>" "(\<lambda>n. [])"]
    by simp
  then have "listeners (localUnsubscribe ?x) = []"
    by (rule localUnsubscribe_clears)
  then have "dispatch \<lparr>options = None, contextOptions = None, startTransition = ''startTransition'', hasWindow = True\<rparr> (''A'', ResolvedEvent) (localUnsubscribe ?x) = localUnsubscribe ?x"
    by (simp add: dispatch_unheard subscribed_def)
  ultimately show ?thesis
    by simp
qed

theorem refetching_flag_witness:
  "keyMemo (Returned (KString ''B'') :: string key_outcome) \<noteq> currentKey (createTurboResource \<lparr>options = None, contextOptions = None, startTransition = ''startTransition'', hasWindow = True\<rparr> 0 (Returned (KString ''A'')) \<lparr>returned = Inr (Promise 0 Pending), query_reaction = []\<rparr> (\<lambda>n. []) :: (nat, string, string) resource)
   \<and> key_evaluated \<lparr>options = None, contextOptions = None, startTransition = ''startTransition'', hasWindow = True\<rparr> (Returned (KString ''B'')) \<lparr>returned = Inr (Promise 7 Pending), query_reaction = [(''B'', RefetchingEvent (Promise 7 Pending))]\<rparr> (\<lambda>n. if n = OnRefetching then [(''B'', RefetchingEvent (Promise 7 Pending))] else []) ((createTurboResource \<lparr>options = None, contextOptions = None, startTransition = ''startTransition'', hasWindow = True\<rparr> 0 (Returned (KString ''A'')) \<lparr>returned = Inr (Promise 0 Pending), query_reaction = []\<rparr> (\<lambda>n. []) :: (nat, string, string) resource)\<lparr>isRefetching := True\<rparr>)
       = key_evaluated \<lparr>options = None, contextOptions = None, startTransition = ''startTransition'', hasWindow = True\<rparr> (Returned (KString ''B'')) \<lparr>returned = Inr (Promise 7 Pending), query_reaction = [(''B'', RefetchingEvent (Promise 7 Pending))]\<rparr> (\<lambda>n. if n = OnRefetching then [(''B'', RefetchingEvent (Promise 7 Pending))] else []) (createTurboResource \<lparr>options = None, contextOptions = None, startTransition = ''startTransition'', hasWindow = True\<rparr> 0 (Returned (KString ''A'')) \<lparr>returned = Inr (Promise 0 Pending), query_reaction = []\<rparr> (\<lambda>n. []) :: (nat, string, string) resource)
   \<and> isRefetching (key_evaluated \<lparr>options = None, contextOptions = None, startTransition = ''startTransition'', hasWindow = True\<rparr> (Returned (KString ''B'')) \<lparr>returned = Inr (Promise 7 Pending), query_reaction = [(''B'', RefetchingEvent (Promise 7 Pending))]\<rparr> (\<lambda>n. if n = OnRefetching then [(''B'', RefetchingEvent (Promise 7 Pending))] else []) (createTurboResource \<lparr>options = None, contextOptions = None, startTransition = ''startTransition'', hasWindow = True\<rparr> 0 (Returned (KString ''A'')) \<lparr>returned = Inr (Promise 0 Pending), query_reaction = []\<rparr> (\<lambda>n. []) :: (nat, string, string) resource))
   \<and> \<not> isRefetching (key_evaluated \<lparr>options = None, contextOptions = None, startTransition = ''startTransition'', hasWindow = True\<rparr> (Returned (KString ''B'')) \<lparr>returned = Inr (Promise 7 Pending), query_reaction = [(''B'', RefetchingEvent (Promise 7 Pending))]\<rparr> (\<lambda>n. [])
          (dispatch \<lparr>options = None, contextOptions = None, startTransition = ''startTransition'', hasWindow = True\<rparr> (''A'', RefetchingEvent (Promise 7 Pending)) (createTurboResource \<lparr>options = None, contextOptions = None, startTransition = ''startTransition'', hasWindow = True\<rparr> 0 (Returned (KString ''A'')) \<lparr>returned = Inr (Promise 0 Pending), query_reaction = []\<rparr> (\<lambda>n. []) :: (nat, string, string) resource)))
   \<and> subscribed ''B'' OnResolved (key_evaluated \<lparr>options = None, contextOptions = None, startTransition = ''startTransition'', hasWindow = True\<rparr> (Returned (KString ''B'')) \<lparr>returned = Inr (Promise 7 Pending), query_reaction = [(''B'', RefetchingEvent (Promise 7 Pending))]\<rparr> (\<lambda>n. [])
          (dispatch \<lparr>options = None, contextOptions = None, startTransition = ''startTransition'', hasWindow = True\<rparr> (''A'', RefetchingEvent (Promise 7 Pending)) (createTurboResource \<lparr>options = None, contextOptions = None, startTransition = ''startTransition'', hasWindow = True\<rparr> 0 (Returned (KString ''A'')) \<lparr>returned = Inr (Promise 0 Pending), query_reaction = []\<rparr> (\<lambda>n. []) :: (nat, string, string) resource)))
   \<and> \<not> isRefetching (createTurboResource \<lparr>options = None, contextOptions = None, startTransition = ''startTransition'', hasWindow = True\<rparr> 0 (Returned (KString ''A'')) \<lparr>returned = Inr (Promise 0 Pending), query_reaction = []\<rparr> (\<lambda>n. []) :: (nat, string, string) resource)
   \<and> subscribed ''A'' OnRefetching (createTurboResource \<lparr>options = None, contextOptions = None, startTransition = ''startTransition'', hasWindow = True\<rparr> 0 (Returned (KString ''A'')) \<lparr>returned = Inr (Promise 0 Pending), query_reaction = []\<rparr> (\<lambda>n. []) :: (nat, string, string) resource)
   \<and> isRefetching (dispatch \<lparr>options = None, contextOptions = None, startTransition = ''startTransition'', hasWindow = True\<rparr> (''A'', RefetchingEvent (Promise 7 Pending)) (createTurboResource \<lparr>options = None, contextOptions = None, startTransition = ''startTransition'', hasWindow = True\<rparr> 0 (Returned (KString ''A'')) \<lparr>returned = Inr (Promise 0 Pending), query_reaction = []\<rparr> (\<lambda>n. []) :: (nat, string, string) resource))
   \<and> \<not> isRefetching (dispatch \<lparr>options = None, contextOptions = None, startTransition = ''startTransition'', hasWindow = True\<rparr> (''A'', ResolvedEvent)
          (dispatch \<lparr>options = None, contextOptions = None, startTransition = ''startTransition'', hasWindow = True\<rparr> (''A'', RefetchingEvent (Promise 7 Pending)) (createTurboResource \<lparr>options = None, contextOptions = None, startTransition = ''startTransition'', hasWindow = True\<rparr> 0 (Returned (KString ''A'')) \<lparr>returned = Inr (Promise 0 Pending), query_reaction = []\<rparr> (\<lambda>n. []) :: (nat, string, string) resource)))
   \<and> \<not> isRefetching (dispatch \<lparr>options = None, contextOptions = None, startTransition = ''startTransition'', hasWindow = True\<rparr> (''A'', ErrorEvent)
          (dispatch \<lparr>options = None, contextOptions = None, startTransition = ''startTransition'', hasWindow = True\<rparr> (''A'', RefetchingEvent (Promise 7 Pending)) (createTurboResource \<lparr>options = None, contextOptions = None, startTransition = ''startTransition'', hasWindow = True\<rparr> 0 (Returned (KString ''A'')) \<lparr>returned = Inr (Promise 0 Pending), query_reaction = []\<rparr> (\<lambda>n. []) :: (nat, string, string) resource)))
   \<and> dispatch \<lparr>options = None, contextOptions = None, startTransition = ''startTransition'', hasWindow = True\<rparr> (''B'', RefetchingEvent (Promise 7 Pending)) (createTurboResource \<lparr>options = None, contextOptions = None, startTransition = ''startTransition'', hasWindow = True\<rparr> 0 (Returned (KString ''A'')) \<lparr>returned = Inr (Promise 0 Pending), query_reaction = []\<rparr> (\<lambda>n. []) :: (nat, string, string) resource) = (createTurboResource \<lparr>options = None, contextOptions = None, startTransition = ''startTransition'', hasWindow = True\<rparr> 0 (Returned (KString ''A'')) \<lparr>returned = Inr (Promise 0 Pending), query_reaction = []\<rparr> (\<lambda>n. []) :: (nat, string, string) resource)
   \<and> isRefetching
        (snd (localRefetch \<lparr>options = None, contextOptions = None, startTransition = ''startTransition'', hasWindow = True\<rparr>
           \<lparr>returned = Inr (Promise 8 Pending), query_reaction = [(''A'', RefetchingEvent (Promise 7 Pending))]\<rparr>
           (createTurboResource \<lparr>options = None, contextOptions = None, startTransition = ''startTransition'', hasWindow = True\<rparr> 0 (Returned (KString ''A'')) \<lparr>returned = Inr (Promise 0 Pending), query_reaction = []\<rparr> (\<lambda>n. []) :: (nat, string, string) resource)))
   \<and> \<not> isRefetching (snd (localRefetch \<lparr>options = None, contextOptions = None, startTransition = ''startTransition'', hasWindow = True\<rparr> \<lparr>returned = Inr (Promise 0 Pending), query_reaction = []\<rparr> (createTurboResource \<lparr>options = None, contextOptions = None, startTransition = ''startTransition'', hasWindow = True\<rparr> 0 (Returned (KString ''A'')) \<lparr>returned = Inr (Promise 0 Pending), query_reaction = []\<rparr> (\<lambda>n. []) :: (nat, string, string) resource)))"
proof -
  let ?x = "dispatch \<lparr>options = None, contextOptions = None, startTransition = ''startTransition'', hasWindow = True\<rparr> (''A'', RefetchingEvent (Promise 7 Pending)) (createTurboResource \<lparr>options = None, contextOptions = None, startTransition = ''startTransition'', hasWindow = True\<rparr> 0 (Returned (KString ''A'')) \<lparr>returned = Inr (Promise 0 Pending), query_reaction = []\<rparr> (\<lambda>n. []) :: (nat, string, string) resource)"
  have change: "keyMemo (Returned (KString ''B'') :: string key_outcome) \<noteq> currentKey (createTurboResource \<lparr>options = None, contextOptions = None, startTransition = ''startTransition'', hasWindow = True\<rparr> 0 (Returned (KString ''A'')) \<lparr>returned = Inr (Promise 0 Pending), query_reaction = []\<rparr> (\<lambda>n. []) :: (nat, string, string) resource)"
    and change': "keyMemo (Returned (KString ''B'') :: string key_outcome) \<noteq> currentKey ?x"
    by simp_all
  have sub: "subscribed ''A'' OnRefetching (createTurboResource \<lparr>options = None, contextOptions = None, startTransition = ''startTransition'', hasWindow = True\<rparr> 0 (Returned (KString ''A'')) \<lparr>returned = Inr (Promise 0 Pending), query_reaction = []\<rparr> (\<lambda>n. []) :: (nat, string, string) resource)" "subscribed ''A'' OnResolved (createTurboResource \<lparr>options = None, contextOptions = None, startTransition = ''startTransition'', hasWindow = True\<rparr> 0 (Returned (KString ''A'')) \<lparr>returned = Inr (Promise 0 Pending), query_reaction = []\<rparr> (\<lambda>n. []) :: (nat, string, string) resource)"
    "subscribed ''A'' OnError (createTurboResource \<lparr>options = None, contextOptions = None, startTransition = ''startTransition'', hasWindow = True\<rparr> 0 (Returned (KString ''A'')) \<lparr>returned = Inr (Promise 0 Pending), query_reaction = []\<rparr> (\<lambda>n. []) :: (nat, string, string) resource)" "\<not> subscribed ''B'' OnRefetching (createTurboResource \<lparr>options = None, contextOptions = None, startTransition = ''startTransition'', hasWindow = True\<rparr> 0 (Returned (KString ''A'')) \<lparr>returned = Inr (Promise 0 Pending), query_reaction = []\<rparr> (\<lambda>n. []) :: (nat, string, string) resource)"
    "subscribed ''A'' OnResolved ?x" "subscribed ''A'' OnError ?x"
    by (simp_all add: subscribed_def created_listeners)
  note a = refetching_flag [where r = "Returned (KString ''B'')" and s = "(createTurboResource \<lparr>options = None, contextOptions = None, startTransition = ''startTransition'', hasWindow = True\<rparr> 0 (Returned (KString ''A'')) \<lparr>returned = Inr (Promise 0 Pending), query_reaction = []\<rparr> (\<lambda>n. []) :: (nat, string, string) resource)" and env = "\<lparr>options = None, contextOptions = None, startTransition = ''startTransition'', hasWindow = True\<rparr>"
      and qa = "\<lparr>returned = Inr (Promise 7 Pending), query_reaction = [(''B'', RefetchingEvent (Promise 7 Pending))]\<rparr>" and sub = "(\<lambda>n. if n = OnRefetching then [(''B'', RefetchingEvent (Promise 7 Pending))] else [])" and b = True and p = "(Promise 7 Pending)" and n = OnResolved
      and now = 0 and i = "CellLoading True" and k = "''A''" and v = 7
      and ev = "RefetchingEvent (Promise 7 Pending)"]
  note b = refetching_flag [where r = "Returned (KString ''B'')" and s = "?x" and env = "\<lparr>options = None, contextOptions = None, startTransition = ''startTransition'', hasWindow = True\<rparr>"
      and qa = "\<lparr>returned = Inr (Promise 7 Pending), query_reaction = [(''B'', RefetchingEvent (Promise 7 Pending))]\<rparr>" and sub = "(\<lambda>n. [])" and b = True and p = "(Promise 7 Pending)" and n = OnResolved
      and now = 0 and i = "CellLoading True" and k = "''A''" and v = 7
      and ev = "RefetchingEvent (Promise 7 Pending)"]
  note c = refetching_flag [where r = "Returned (KString ''A'')" and s = "(createTurboResource \<lparr>options = None, contextOptions = None, startTransition = ''startTransition'', hasWindow = True\<rparr> 0 (Returned (KString ''A'')) \<lparr>returned = Inr (Promise 0 Pending), query_reaction = []\<rparr> (\<lambda>n. []) :: (nat, string, string) resource)" and env = "\<lparr>options = None, contextOptions = None, startTransition = ''startTransition'', hasWindow = True\<rparr>"
      and qa = "\<lparr>returned = Inr (Promise 0 Pending), query_reaction = []\<rparr>" and sub = "(\<lambda>n. [])" and b = True and p = "(Promise 7 Pending)" and n = OnResolved
      and now = 0 and i = "CellLoading True" and k = "''B''" and v = 7
      and ev = "RefetchingEvent (Promise 7 Pending)"]
  note d = refetching_flag [where r = "Returned (KString ''A'')" and s = "(createTurboResource \<lparr>options = None, contextOptions = None, startTransition = ''startTransition'', hasWindow = True\<rparr> 0 (Returned (KString ''A'')) \<lparr>returned = Inr (Promise 0 Pending), query_reaction = []\<rparr> (\<lambda>n. []) :: (nat, string, string) resource)" and env = "\<lparr>options = None, contextOptions = None, startTransition = ''startTransition'', hasWindow = True\<rparr>"
      and qa = "\<lparr>returned = Inr (Promise 8 Pending),
                   query_reaction = [(''A'', RefetchingEvent (Promise 7 Pending))]\<rparr>"
      and sub = "(\<lambda>n. [])" and b = True and p = "(Promise 7 Pending)" and n = OnResolved
      and now = 0 and i = "CellLoading True" and k = "''A''" and v = 7
      and ev = "RefetchingEvent (Promise 7 Pending)"]
  have s0: "\<not> isRefetching (createTurboResource \<lparr>options = None, contextOptions = None, startTransition = ''startTransition'', hasWindow = True\<rparr> 0 (Returned (KString ''A'')) \<lparr>returned = Inr (Promise 0 Pending), query_reaction = []\<rparr> (\<lambda>n. []) :: (nat, string, string) resource)"
    using c by simp
  have x: "isRefetching ?x"
    using a sub s0 by simp
  show ?thesis
    using change change' sub s0 x a b c d by simp
qed

subsection \<open>The signals of \<open>createStale\<close>\<close>




text \<open>
  C10. A tick of \<open>createStale\<close>'s interval at which the captured key is absent, or at
  which the cache reports no expiration for it, leaves both signals as they were.
\<close>

theorem stale_tick_skips:
  assumes "\<not> truthy key \<or> expiration (key_string key) = None"
  shows "stale_tick key expiration now g = g"
  using assms by (auto simp: stale_tick_def)

text \<open>Signals that say "fresh for another 500 ms" stay so, and are not reset to the
  initial "stale, 0".\<close>

theorem stale_tick_skips_witness:
  "stale_tick KNull (\<lambda>k. Some 1000) 700 \<lparr>isStale = False, staleIn = 500\<rparr>
     = \<lparr>isStale = False, staleIn = 500\<rparr>
   \<and> stale_tick (KString ''A'') (\<lambda>k. None) 700 \<lparr>isStale = False, staleIn = 500\<rparr>
     = \<lparr>isStale = False, staleIn = 500\<rparr>
   \<and> \<lparr>isStale = False, staleIn = 500\<rparr> \<noteq> initial_stale KNull (\<lambda>k. None) 700"
  using stale_tick_skips [of KNull "\<lambda>k. Some 1000" 700 "\<lparr>isStale = False, staleIn = 500\<rparr>"]
    stale_tick_skips [of "KString ''A''" "\<lambda>k. None" 700 "\<lparr>isStale = False, staleIn = 500\<rparr>"]
  by (simp add: initial_stale_def)

subsection \<open>The loader\<close>

text \<open>
  C6, as the code has it. Called with a promise as \<open>refetching\<close>, the loader returns that
  promise and makes no call. Otherwise it returns what the cache's \<open>query\<close> returns, and
  the one operation of the cache it makes is \<open>query(k, { stale: st, ... })\<close>, where \<open>st\<close> is
  \<open>true\<close> when neither the options nor the context have a \<open>stale\<close> property, and else the
  value of that property, the options' before the context's.
\<close>

theorem loader_contract:
  "loader env k (RefetchingPromise p) qa s = (Inr p, s)
   \<and> fst (loader env k (RefetchingBoolean b) qa s) = returned qa
   \<and> fst (loader env k RefetchingOther qa s) = returned qa
   \<and> filter cache_operation (calls (snd (loader env k (RefetchingBoolean b) qa s))) =
       filter cache_operation (calls s) @ [Query k (spread_stale True env)]
   \<and> filter cache_operation (calls (snd (loader env k RefetchingOther qa s))) =
       filter cache_operation (calls s) @ [Query k (spread_stale True env)]
   \<and> calls (snd (loader env k (RefetchingBoolean b) (qa\<lparr>query_reaction := []\<rparr>) s)) =
       calls s @ [Query k (spread_stale True env)]
   \<and> spread_stale True (env\<lparr>options := None, contextOptions := None\<rparr>) = Some True
   \<and> spread_stale True (env\<lparr>options := Some (opts\<lparr>opt_stale := Absent\<rparr>),
                            contextOptions := Some (ctx\<lparr>opt_stale := Absent\<rparr>)\<rparr>) = Some True
   \<and> spread_stale True (env\<lparr>options := Some (opts\<lparr>opt_stale := Present v\<rparr>)\<rparr>) = v
   \<and> spread_stale True (env\<lparr>options := Some (opts\<lparr>opt_stale := Absent\<rparr>),
                            contextOptions := Some (ctx\<lparr>opt_stale := Present v\<rparr>)\<rparr>) = v
   \<and> spread_stale True (env\<lparr>options := None,
                            contextOptions := Some (ctx\<lparr>opt_stale := Present v\<rparr>)\<rparr>) = v"
proof -
  have "calls (snd (loader env k (RefetchingBoolean b) (qa\<lparr>query_reaction := []\<rparr>) s)) =
       calls s @ [Query k (spread_stale True env)]"
    by (simp add: query_def cache_call_def)
  moreover have "spread_stale True (env\<lparr>options := None, contextOptions := None\<rparr>) = Some True"
    and "spread_stale True (env\<lparr>options := Some (opts\<lparr>opt_stale := Absent\<rparr>),
           contextOptions := Some (ctx\<lparr>opt_stale := Absent\<rparr>)\<rparr>) = Some True"
    and "spread_stale True (env\<lparr>options := Some (opts\<lparr>opt_stale := Present v\<rparr>)\<rparr>) = v"
    and "spread_stale True (env\<lparr>options := Some (opts\<lparr>opt_stale := Absent\<rparr>),
           contextOptions := Some (ctx\<lparr>opt_stale := Present v\<rparr>)\<rparr>) = v"
    and "spread_stale True (env\<lparr>options := None,
           contextOptions := Some (ctx\<lparr>opt_stale := Present v\<rparr>)\<rparr>) = v"
    by (simp_all add: spread_stale_def)
  ultimately show ?thesis
    by (simp add: query_calls)
qed

text \<open>
  The claim as stated fails for a resource created with \<open>stale: false\<close> in its options:
  the loader's fetch is then not stale-tolerant.
\<close>

theorem loader_stale_counterexample:
  "calls (snd (loader \<lparr>options = Some \<lparr>opt_transition = TUndefined, opt_refetchOnFocus = None, opt_refetchOnConnect = None, opt_focusInterval = None, opt_stale = Present (Some False)\<rparr>, contextOptions = None, startTransition = ''startTransition'', hasWindow = True\<rparr> ''A'' (RefetchingBoolean False) \<lparr>returned = Inr (Promise 0 Pending), query_reaction = []\<rparr>
                (blank 0 (KString ''A'') :: (nat, string, string) resource)))
     = [Query ''A'' (Some False)]"
  by (simp add: query_def cache_call_def spread_stale_def blank_def)

theorem loader_contract_witness:
  "loader \<lparr>options = None, contextOptions = None, startTransition = ''startTransition'', hasWindow = True\<rparr> ''A'' (RefetchingPromise (Promise 7 Pending)) \<lparr>returned = Inr (Promise 0 Pending), query_reaction = []\<rparr>
       (blank 0 (KString ''A'') :: (nat, string, string) resource)
     = (Inr (Promise 7 Pending), blank 0 (KString ''A''))
   \<and> calls (snd (loader \<lparr>options = None, contextOptions = None, startTransition = ''startTransition'', hasWindow = True\<rparr> ''A'' (RefetchingBoolean False) \<lparr>returned = Inr (Promise 0 Pending), query_reaction = []\<rparr>
                (blank 0 (KString ''A'') :: (nat, string, string) resource)))
     = [Query ''A'' (Some True)]"
  using loader_contract [where env = "\<lparr>options = None, contextOptions = None, startTransition = ''startTransition'', hasWindow = True\<rparr>" and k = "''A''" and p = "(Promise 7 Pending)" and qa = "\<lparr>returned = Inr (Promise 0 Pending), query_reaction = []\<rparr>"
      and s = "blank 0 (KString ''A'') :: (nat, string, string) resource" and b = False
      and opts = "\<lparr>opt_transition = TUndefined, opt_refetchOnFocus = None, opt_refetchOnConnect = None, opt_focusInterval = None, opt_stale = Present (Some False)\<rparr>" and ctx = "\<lparr>opt_transition = TUndefined, opt_refetchOnFocus = None, opt_refetchOnConnect = None, opt_focusInterval = None, opt_stale = Present (Some False)\<rparr>" and v = "Some False"]
  by (simp add: blank_def)

subsection \<open>The Subscription Set\<close>

text \<open>
  C7. Let \<open>s\<close> be a state reached from creation by any inputs, and let the key change in
  \<open>s\<close>; \<open>t\<close> is the state after the resource's load for the new key. At most one
  Subscription Set is live in \<open>s\<close>. The change runs the cleanup and then the body of the
  effect: the cleanup invokes every handle of the previous set, after it no handler is
  registered any more, and only then the body subscribes for the new key. The calls of
  the change, the commits to the resource cell aside, are the teardown's followed by the
  setup's; they are all its calls when the cache dispatches nothing during the
  subscriptions. At most one Subscription Set is live after the change, too. An event of
  a key other than the current one reaches no handler.
\<close>

theorem teardown_before_setup:
  assumes "s = run env inputs (createTurboResource env now r0 qa0 sub0)"
    and "keyMemo r \<noteq> currentKey s"
    and "t = resource_load env qa (s\<lparr>currentKey := keyMemo r\<rparr>)"
  shows "one_subscription_set s
         \<and> key_evaluated env r qa sub s = effect_body env sub (run_cleanup t)
         \<and> calls (run_cleanup t) = calls t @ teardown_calls s
         \<and> listeners (run_cleanup t) = []
         \<and> calls_but_commits (key_evaluated env r qa sub s) =
             calls_but_commits t @ teardown_calls s @ setup_calls env (keyMemo r)
         \<and> (sub OnMutated = [] \<and> sub OnRefetching = [] \<and> sub OnResolved = []
              \<and> sub OnError = [] \<longrightarrow>
              calls (key_evaluated env r qa sub s) =
                calls t @ teardown_calls s @ setup_calls env (keyMemo r))
         \<and> one_subscription_set (key_evaluated env r qa sub s)
         \<and> (currentKey s \<noteq> KString k \<longrightarrow> dispatch env (k, ev) s = s)"
proof -
  have inv: "one_subscription_set s"
    unfolding assms(1) by (rule reachable_one_subscription_set)
  have ke: "key_evaluated env r qa sub s = effect env sub t"
    using assms(2,3) by (simp add: key_evaluated_def)
  have set_t: "subscription_set t = subscription_set s"
    unfolding assms(3) by (simp add: subscription_set_def)
  have "list_all (\<lambda>h. h \<in> set (subscription_set t)) (listeners t)"
    and "listeners t = [] \<or> cleanupRegistered t"
    using one_subscription_set_weak [OF inv] set_t by (simp_all add: assms(3))
  then have clear: "listeners (run_cleanup t) = []"
    by (rule run_cleanup_clears)
  have tt: "teardown_calls t = teardown_calls s" and kt: "currentKey t = keyMemo r"
    unfolding assms(3) by simp_all
  have td: "calls (run_cleanup t) = calls t @ teardown_calls s"
    by (simp add: run_cleanup_calls tt)
  have most: "calls_but_commits (effect env sub t) =
                calls_but_commits t @ teardown_calls s @ setup_calls env (keyMemo r)"
    by (simp add: calls_but_commits_def effect_calls filter_teardown_calls filter_setup_calls
          tt kt)
  have all: "sub OnMutated = [] \<and> sub OnRefetching = [] \<and> sub OnResolved = []
              \<and> sub OnError = [] \<longrightarrow>
             calls (effect env sub t) = calls t @ teardown_calls s @ setup_calls env (keyMemo r)"
    by (simp add: effect_silent tt kt)
  have foreign: "currentKey s \<noteq> KString k \<longrightarrow> dispatch env (k, ev) s = s"
    using inv by (auto simp: one_subscription_set_def intro: dispatch_foreign_key)
  have after: "one_subscription_set (key_evaluated env r qa sub s)"
    using inv by (rule key_evaluated_preserves)
  have body: "key_evaluated env r qa sub s = effect_body env sub (run_cleanup t)"
    using ke by (simp add: effect_def)
  from inv body td clear most [folded ke] all [folded ke] after foreign show ?thesis
    by (intro conjI)
qed

theorem teardown_before_setup_witness:
  "keyMemo (Returned (KString ''B'') :: string key_outcome) \<noteq> currentKey (createTurboResource \<lparr>options = None, contextOptions = None, startTransition = ''startTransition'', hasWindow = True\<rparr> 0 (Returned (KString ''A'')) \<lparr>returned = Inr (Promise 0 Pending), query_reaction = []\<rparr> (\<lambda>n. []) :: (nat, string, string) resource)
   \<and> one_subscription_set (createTurboResource \<lparr>options = None, contextOptions = None, startTransition = ''startTransition'', hasWindow = True\<rparr> 0 (Returned (KString ''A'')) \<lparr>returned = Inr (Promise 0 Pending), query_reaction = []\<rparr> (\<lambda>n. []) :: (nat, string, string) resource)
   \<and> listeners (createTurboResource \<lparr>options = None, contextOptions = None, startTransition = ''startTransition'', hasWindow = True\<rparr> 0 (Returned (KString ''A'')) \<lparr>returned = Inr (Promise 0 Pending), query_reaction = []\<rparr> (\<lambda>n. []) :: (nat, string, string) resource) =
       [CacheListener 0 ''A'' OnMutated, CacheListener 1 ''A'' OnRefetching,
        CacheListener 2 ''A'' OnResolved, CacheListener 3 ''A'' OnError,
        WindowListener 4 Focus, WindowListener 5 Online]
   \<and> listeners (run_cleanup (resource_load \<lparr>options = None, contextOptions = None, startTransition = ''startTransition'', hasWindow = True\<rparr> \<lparr>returned = Inr (Promise 0 Pending), query_reaction = []\<rparr>
         ((createTurboResource \<lparr>options = None, contextOptions = None, startTransition = ''startTransition'', hasWindow = True\<rparr> 0 (Returned (KString ''A'')) \<lparr>returned = Inr (Promise 0 Pending), query_reaction = []\<rparr> (\<lambda>n. []) :: (nat, string, string) resource)\<lparr>currentKey := keyMemo (Returned (KString ''B'') :: string key_outcome)\<rparr>))) = []
   \<and> calls (key_evaluated \<lparr>options = None, contextOptions = None, startTransition = ''startTransition'', hasWindow = True\<rparr> (Returned (KString ''B'')) \<lparr>returned = Inr (Promise 0 Pending), query_reaction = []\<rparr> (\<lambda>n. []) (createTurboResource \<lparr>options = None, contextOptions = None, startTransition = ''startTransition'', hasWindow = True\<rparr> 0 (Returned (KString ''A'')) \<lparr>returned = Inr (Promise 0 Pending), query_reaction = []\<rparr> (\<lambda>n. []) :: (nat, string, string) resource)) =
       calls (resource_load \<lparr>options = None, contextOptions = None, startTransition = ''startTransition'', hasWindow = True\<rparr> \<lparr>returned = Inr (Promise 0 Pending), query_reaction = []\<rparr>
         ((createTurboResource \<lparr>options = None, contextOptions = None, startTransition = ''startTransition'', hasWindow = True\<rparr> 0 (Returned (KString ''A'')) \<lparr>returned = Inr (Promise 0 Pending), query_reaction = []\<rparr> (\<lambda>n. []) :: (nat, string, string) resource)\<lparr>currentKey := keyMemo (Returned (KString ''B'') :: string key_outcome)\<rparr>))
       @ map Invoke
          [CacheListener 0 ''A'' OnMutated, CacheListener 1 ''A'' OnRefetching,
           WindowListener 4 Focus, WindowListener 5 Online,
           CacheListener 2 ''A'' OnResolved, CacheListener 3 ''A'' OnError]
       @ [Subscribe ''B'' OnMutated, Subscribe ''B'' OnRefetching, Subscribe ''B'' OnResolved,
          Subscribe ''B'' OnError, AddEventListener Focus, AddEventListener Online]
   \<and> calls_but_commits (key_evaluated \<lparr>options = None, contextOptions = None, startTransition = ''startTransition'', hasWindow = True\<rparr> (Returned (KString ''B'')) \<lparr>returned = Inr (Promise 0 Pending), query_reaction = []\<rparr> (\<lambda>n. if n = OnRefetching then [(''B'', RefetchingEvent (Promise 7 Pending))] else []) (createTurboResource \<lparr>options = None, contextOptions = None, startTransition = ''startTransition'', hasWindow = True\<rparr> 0 (Returned (KString ''A'')) \<lparr>returned = Inr (Promise 0 Pending), query_reaction = []\<rparr> (\<lambda>n. []) :: (nat, string, string) resource)) =
       calls_but_commits (resource_load \<lparr>options = None, contextOptions = None, startTransition = ''startTransition'', hasWindow = True\<rparr> \<lparr>returned = Inr (Promise 0 Pending), query_reaction = []\<rparr>
         ((createTurboResource \<lparr>options = None, contextOptions = None, startTransition = ''startTransition'', hasWindow = True\<rparr> 0 (Returned (KString ''A'')) \<lparr>returned = Inr (Promise 0 Pending), query_reaction = []\<rparr> (\<lambda>n. []) :: (nat, string, string) resource)\<lparr>currentKey := keyMemo (Returned (KString ''B'') :: string key_outcome)\<rparr>))
       @ map Invoke
          [CacheListener 0 ''A'' OnMutated, CacheListener 1 ''A'' OnRefetching,
           WindowListener 4 Focus, WindowListener 5 Online,
           CacheListener 2 ''A'' OnResolved, CacheListener 3 ''A'' OnError]
       @ [Subscribe ''B'' OnMutated, Subscribe ''B'' OnRefetching, Subscribe ''B'' OnResolved,
          Subscribe ''B'' OnError, AddEventListener Focus, AddEventListener Online]
   \<and> one_subscription_set (key_evaluated \<lparr>options = None, contextOptions = None, startTransition = ''startTransition'', hasWindow = True\<rparr> (Returned (KString ''B'')) \<lparr>returned = Inr (Promise 0 Pending), query_reaction = []\<rparr> (\<lambda>n. []) (createTurboResource \<lparr>options = None, contextOptions = None, startTransition = ''startTransition'', hasWindow = True\<rparr> 0 (Returned (KString ''A'')) \<lparr>returned = Inr (Promise 0 Pending), query_reaction = []\<rparr> (\<lambda>n. []) :: (nat, string, string) resource))
   \<and> dispatch \<lparr>options = None, contextOptions = None, startTransition = ''startTransition'', hasWindow = True\<rparr> (''B'', RefetchingEvent (Promise 7 Pending)) (createTurboResource \<lparr>options = None, contextOptions = None, startTransition = ''startTransition'', hasWindow = True\<rparr> 0 (Returned (KString ''A'')) \<lparr>returned = Inr (Promise 0 Pending), query_reaction = []\<rparr> (\<lambda>n. []) :: (nat, string, string) resource) = (createTurboResource \<lparr>options = None, contextOptions = None, startTransition = ''startTransition'', hasWindow = True\<rparr> 0 (Returned (KString ''A'')) \<lparr>returned = Inr (Promise 0 Pending), query_reaction = []\<rparr> (\<lambda>n. []) :: (nat, string, string) resource)"
proof -
  have reach: "(createTurboResource \<lparr>options = None, contextOptions = None, startTransition = ''startTransition'', hasWindow = True\<rparr> 0 (Returned (KString ''A'')) \<lparr>returned = Inr (Promise 0 Pending), query_reaction = []\<rparr> (\<lambda>n. []) :: (nat, string, string) resource) = run \<lparr>options = None, contextOptions = None, startTransition = ''startTransition'', hasWindow = True\<rparr> [] (createTurboResource \<lparr>options = None, contextOptions = None, startTransition = ''startTransition'', hasWindow = True\<rparr> 0 (Returned (KString ''A'')) \<lparr>returned = Inr (Promise 0 Pending), query_reaction = []\<rparr> (\<lambda>n. []))"
    by simp
  have change: "keyMemo (Returned (KString ''B'') :: string key_outcome) \<noteq> currentKey (createTurboResource \<lparr>options = None, contextOptions = None, startTransition = ''startTransition'', hasWindow = True\<rparr> 0 (Returned (KString ''A'')) \<lparr>returned = Inr (Promise 0 Pending), query_reaction = []\<rparr> (\<lambda>n. []) :: (nat, string, string) resource)"
    by simp
  note w = teardown_before_setup [OF reach change refl,
      where qa = "\<lparr>returned = Inr (Promise 0 Pending), query_reaction = []\<rparr>" and sub = "(\<lambda>n. [])" and k = "''B''" and ev = "RefetchingEvent (Promise 7 Pending)"]
  note w' = teardown_before_setup [OF reach change refl,
      where qa = "\<lparr>returned = Inr (Promise 0 Pending), query_reaction = []\<rparr>" and sub = "(\<lambda>n. if n = OnRefetching then [(''B'', RefetchingEvent (Promise 7 Pending))] else [])" and k = "''B''" and ev = "RefetchingEvent (Promise 7 Pending)"]
  note inv = w [THEN conjunct1]
    and clear = w [THEN conjunct2, THEN conjunct2, THEN conjunct2, THEN conjunct1]
    and most = w' [THEN conjunct2, THEN conjunct2, THEN conjunct2, THEN conjunct2,
                   THEN conjunct1]
    and order = w [THEN conjunct2, THEN conjunct2, THEN conjunct2, THEN conjunct2,
                   THEN conjunct2, THEN conjunct1]
    and after = w [THEN conjunct2, THEN conjunct2, THEN conjunct2, THEN conjunct2,
                   THEN conjunct2, THEN conjunct2, THEN conjunct1]
    and foreign = w [THEN conjunct2, THEN conjunct2, THEN conjunct2, THEN conjunct2,
                   THEN conjunct2, THEN conjunct2, THEN conjunct2]
  show ?thesis
    using change inv clear most order after foreign
    by (simp add: created_listeners created_set teardown_calls_def setup_calls_def)
qed

subsection \<open>Actions without a key\<close>

text \<open>
  C8. In a state whose key is not a string, \<open>mutate\<close>, \<open>refetch\<close>, \<open>forget\<close> and \<open>abort\<close>
  complete normally and leave the state as it is, the list of calls included, so no cache
  operation is made, whatever the cache would have answered; the promise of \<open>refetch\<close>
  is fulfilled with \<open>undefined\<close>.
\<close>

theorem no_key_actions:
  assumes "\<not> is_string (currentKey s)"
  shows "localMutate env v a s = (Normal, s)
         \<and> localRefetch env qa s = (Fulfilled None, s)
         \<and> localForget env a s = (Normal, s)
         \<and> localAbort env reason a s = (Normal, s)"
  using assms
  by (cases "currentKey s")
     (simp_all add: localMutate_def localRefetch_def localForget_def localAbort_def)

text \<open>A resource whose key is \<open>null\<close>, and a cache that would throw.\<close>

theorem no_key_actions_witness:
  "\<not> is_string (currentKey (blank 0 KNull :: (nat, string, string) resource))
   \<and> localMutate \<lparr>options = None, contextOptions = None,
                   startTransition = ''startTransition'', hasWindow = True\<rparr>
        (7 :: nat) \<lparr>thrown = Some ''boom'', reaction = []\<rparr> (blank 0 KNull)
      = (Normal, blank 0 KNull)
   \<and> localRefetch \<lparr>options = None, contextOptions = None,
                    startTransition = ''startTransition'', hasWindow = True\<rparr>
        \<lparr>returned = Inl ''boom'', query_reaction = []\<rparr>
        (blank 0 KNull :: (nat, string, string) resource)
      = (Fulfilled None, blank 0 KNull)
   \<and> calls (snd (localForget \<lparr>options = None, contextOptions = None,
                    startTransition = ''startTransition'', hasWindow = True\<rparr>
        \<lparr>thrown = Some ''boom'', reaction = []\<rparr>
        (blank 0 KNull :: (nat, string, string) resource))) = []"
  using no_key_actions [of "blank 0 KNull :: (nat, string, string) resource"
      "\<lparr>options = None, contextOptions = None,
        startTransition = ''startTransition'', hasWindow = True\<rparr>"
      7 "\<lparr>thrown = Some ''boom'', reaction = []\<rparr>"
      "\<lparr>returned = Inl ''boom'', query_reaction = []\<rparr>"]
  by (simp add: blank_def)

subsection \<open>A refetch that fails\<close>

text \<open>
  C9. With an active key, when the promise that the cache's \<open>query\<close> returned to
  \<open>refetch()\<close> is rejected with an error, the promise that \<open>refetch()\<close> returns is rejected
  with that same error. This holds for every setting of the options, so also for the
  fetch with \<open>stale: false\<close> that \<open>refetch()\<close> issues when no option overrides it.
\<close>

theorem refetch_rejection:
  assumes "truthy (currentKey s)" and "returned qa = Inr p" and "settles p = Rejected e"
  shows "fst (localRefetch env qa s) = Rejected e"
proof -
  obtain i where "p = Promise i (Rejected e)"
    using assms(3) by (cases p) simp
  then show ?thesis
    using assms(1,2) by (simp add: localRefetch_def query_def)
qed

theorem refetch_rejection_witness:
  "truthy (currentKey (blank 0 (KString ''A'') :: (nat, string, string) resource))
   \<and> returned \<lparr>returned = Inr (Promise 1 (Rejected ''boom'')), query_reaction = []\<rparr>
       = (Inr (Promise 1 (Rejected ''boom'')) :: string + (nat, string) promise)
   \<and> settles (Promise 1 (Rejected ''boom'') :: (nat, string) promise) = Rejected ''boom''
   \<and> fst (localRefetch \<lparr>options = None, contextOptions = None,
                         startTransition = ''startTransition'', hasWindow = True\<rparr>
             \<lparr>returned = Inr (Promise 1 (Rejected ''boom'')), query_reaction = []\<rparr>
             (blank 0 (KString ''A'') :: (nat, string, string) resource))
       = Rejected ''boom''"
  using refetch_rejection [of "blank 0 (KString ''A'') :: (nat, string, string) resource"
      "\<lparr>returned = Inr (Promise 1 (Rejected ''boom'')), query_reaction = []\<rparr>"
      "Promise 1 (Rejected ''boom'')" "''boom''"
      "\<lparr>options = None, contextOptions = None,
        startTransition = ''startTransition'', hasWindow = True\<rparr>"]
  by (simp add: blank_def)

end
